theory Spec2Isabelle
  imports Complex_Main
begin

section \<open>JavaScript values\<close>

text \<open>
  A JavaScript string is modelled as a \<^typ>\<open>string\<close> holding its UTF-8 bytes, so every
  ASCII character is one \<^typ>\<open>char\<close> and string equality is the source's. An optional
  value (\<^verbatim>\<open>undefined\<close>, a missing property, an unset environment variable) is
  \<^const>\<open>None\<close>. A thrown \<^verbatim>\<open>Error\<close> is a value of type \<open>error\<close>, and a function that
  can throw returns \<open>error + 'a\<close>.
\<close>

datatype error = Error string

type_synonym env = "string \<rightharpoonup> string"

definition truthy :: "string option \<Rightarrow> bool" where
  \<comment> \<open>truthiness of a value of type \<^verbatim>\<open>string | undefined\<close>: the empty string is falsy\<close>
  "truthy v = (case v of None \<Rightarrow> False | Some s \<Rightarrow> s \<noteq> [])"

definition or_else :: "string option \<Rightarrow> string option \<Rightarrow> string option" where
  \<comment> \<open>\<^verbatim>\<open>a || b\<close> on optional strings\<close>
  "or_else a b = (if truthy a then a else b)"

definition or_default :: "string option \<Rightarrow> string \<Rightarrow> string" where
  \<comment> \<open>\<^verbatim>\<open>a || 'literal'\<close>\<close>
  "or_default a d = (case a of None \<Rightarrow> d | Some s \<Rightarrow> if s = [] then d else s)"

definition is_digit :: "char \<Rightarrow> bool" where
  "is_digit c = (c \<in> set ''0123456789'')"

definition is_word :: "char \<Rightarrow> bool" where
  \<comment> \<open>the class \<^verbatim>\<open>\w\<close>\<close>
  "is_word c = (c \<in> set ''abcdefghijklmnopqrstuvwxyzABCDEFGHIJKLMNOPQRSTUVWXYZ0123456789_'')"

fun strip_prefix :: "string \<Rightarrow> string \<Rightarrow> string option" where
  \<comment> \<open>\<^verbatim>\<open>s.startsWith(p)\<close>, returning the rest of \<open>s\<close>\<close>
  "strip_prefix [] s = Some s"
| "strip_prefix (p # ps) [] = None"
| "strip_prefix (p # ps) (c # cs) = (if p = c then strip_prefix ps cs else None)"

definition startsWith :: "string \<Rightarrow> string \<Rightarrow> bool" where
  "startsWith s p = (strip_prefix p s \<noteq> None)"

definition digit_value :: "char \<Rightarrow> nat" where
  "digit_value c = length (takeWhile (\<lambda>d. d \<noteq> c) ''0123456789'')"

definition decimal :: "string \<Rightarrow> nat" where
  \<comment> \<open>the number a string of decimal digits denotes\<close>
  "decimal s = foldl (\<lambda>n c. 10 * n + digit_value c) 0 s"

definition interpolate :: "string option \<Rightarrow> string" where
  \<comment> \<open>an optional string inside a template literal\<close>
  "interpolate v = (case v of None \<Rightarrow> ''undefined'' | Some s \<Rightarrow> s)"

section \<open>Pricing (the x402 module)\<close>

record price_pair =
  base :: string
  vision :: string

definition FALLBACK_PRICING_gpt5 :: price_pair where
  "FALLBACK_PRICING_gpt5 = \<lparr>base = ''100000'', vision = ''150000''\<rparr>"

definition FALLBACK_PRICING_claude :: price_pair where
  "FALLBACK_PRICING_claude = \<lparr>base = ''200000'', vision = ''250000''\<rparr>"

definition FALLBACK_PRICING_deepseek :: price_pair where
  "FALLBACK_PRICING_deepseek = \<lparr>base = ''30000'', vision = ''30000''\<rparr>"

definition getPrice :: "env \<Rightarrow> string \<Rightarrow> string \<Rightarrow> string" where
  \<comment> \<open>\<^verbatim>\<open>value && /^\d+$/.test(value) ? value : fallback\<close>\<close>
  "getPrice env envKey fallback =
     (case env envKey of
        None \<Rightarrow> fallback
      | Some v \<Rightarrow> if v \<noteq> [] \<and> list_all is_digit v then v else fallback)"

record ModelConfig =
  name :: string
  provider :: string
  pricePerMessage :: string
  visionPrice :: string

definition AI_MODEL_PRICING :: "env \<Rightarrow> (string \<times> ModelConfig) list" where
  \<comment> \<open>the object literal, as the list of its keys and values; its prices are read from
      the environment when the module is loaded\<close>
  "AI_MODEL_PRICING env =
     [(''gpt-5'',
        \<lparr>name = ''GPT-5'', provider = ''OpenAI'',
         pricePerMessage = getPrice env ''PRICE_GPT'' (base FALLBACK_PRICING_gpt5),
         visionPrice = getPrice env ''PRICE_VISION_ADDON'' (vision FALLBACK_PRICING_gpt5)\<rparr>),
      (''claude-sonnet-4-5'',
        \<lparr>name = ''Claude 4.5 Sonnet'', provider = ''Anthropic'',
         pricePerMessage = getPrice env ''PRICE_CLAUDE'' (base FALLBACK_PRICING_claude),
         visionPrice = getPrice env ''PRICE_VISION_ADDON'' (vision FALLBACK_PRICING_claude)\<rparr>),
      (''deepseek'',
        \<lparr>name = ''Deepseek Chat'', provider = ''Deepseek'',
         pricePerMessage = getPrice env ''PRICE_DEEPSEEK'' (base FALLBACK_PRICING_deepseek),
         visionPrice = getPrice env ''PRICE_DEEPSEEK_VISION'' (vision FALLBACK_PRICING_deepseek)\<rparr>)]"

text \<open>
  The model id is whatever string the caller passes: the middleware casts the request
  body's \<^verbatim>\<open>model\<close> to \<^verbatim>\<open>AIModel\<close> unchecked. The table is a plain object, so
  \<^verbatim>\<open>AI_MODEL_PRICING[model]\<close> also finds what every object inherits from
  \<^verbatim>\<open>Object.prototype\<close>: eleven functions and the accessor \<^verbatim>\<open>__proto__\<close>, which gives
  \<^verbatim>\<open>Object.prototype\<close> itself. All twelve values are truthy; none has a property
  \<^verbatim>\<open>pricePerMessage\<close> or \<^verbatim>\<open>visionPrice\<close>; a function has a \<^verbatim>\<open>name\<close>, which is
  \<^verbatim>\<open>Object\<close> for \<^verbatim>\<open>constructor\<close> and the key itself for the ten others, and
  \<^verbatim>\<open>Object.prototype\<close> has none.
\<close>

definition Object_prototype_functions :: "string list" where
  "Object_prototype_functions =
     [''constructor'', ''__defineGetter__'', ''__defineSetter__'', ''hasOwnProperty'',
      ''__lookupGetter__'', ''__lookupSetter__'', ''isPrototypeOf'', ''propertyIsEnumerable'',
      ''toString'', ''valueOf'', ''toLocaleString'']"

datatype property =
    Own ModelConfig  \<comment> \<open>an entry of the table\<close>
  | Inherited "string option"
      \<comment> \<open>a value inherited from \<^verbatim>\<open>Object.prototype\<close>, of which its \<^verbatim>\<open>name\<close> is kept\<close>

definition AI_MODEL_PRICING_get :: "env \<Rightarrow> string \<Rightarrow> property option" where
  \<comment> \<open>\<^verbatim>\<open>AI_MODEL_PRICING[model]\<close>; \<^const>\<open>None\<close> is \<^verbatim>\<open>undefined\<close>\<close>
  "AI_MODEL_PRICING_get env model =
     (case map_of (AI_MODEL_PRICING env) model of
        Some modelConfig \<Rightarrow> Some (Own modelConfig)
      | None \<Rightarrow>
          if model = ''constructor'' then Some (Inherited (Some ''Object''))
          else if model \<in> set Object_prototype_functions then Some (Inherited (Some model))
          else if model = ''__proto__'' then Some (Inherited None)
          else None)"

definition getModelPrice :: "env \<Rightarrow> string \<Rightarrow> bool \<Rightarrow> error + string option" where
  \<comment> \<open>the price returned is \<^const>\<open>None\<close>, that is \<^verbatim>\<open>undefined\<close>, for an inherited value\<close>
  "getModelPrice env model hasVision =
     (case AI_MODEL_PRICING_get env model of
        None \<Rightarrow> Inl (Error (''Unknown AI model: '' @ model))
      | Some (Own modelConfig) \<Rightarrow>
          Inr (Some (if hasVision then visionPrice modelConfig else pricePerMessage modelConfig))
      | Some (Inherited n) \<Rightarrow> Inr None)"

section \<open>Configuration and payment requirements\<close>

record X402Config =
  cfg_network :: string
  treasuryWallet :: string
  baseUrl :: string
  facilitatorUrl :: string
  facilitatorFeePayer :: string
  usdcMint :: string

definition USDC_MINT_ADDRESSES :: "string \<Rightarrow> string" where
  \<comment> \<open>indexed only by the two network names\<close>
  "USDC_MINT_ADDRESSES n =
     (if n = ''solana-devnet'' then ''4zMMC9srt5Ri5X14GAgXhaHii3GnPAEERYPJgZJDncDU''
      else ''EPjFWdd5AufqSSqeM2qN1xzybapC8G4wEGGkZwyTDt1v'')"

definition getX402Config :: "env \<Rightarrow> error + X402Config" where
  "getX402Config env =
     (let networkEnv =
            or_default (or_else (env ''NEXT_PUBLIC_NETWORK'') (env ''NEXT_PUBLIC_SOLANA_NETWORK'')) [];
          network =
            (if networkEnv = ''solana'' \<or> networkEnv = ''solana-devnet'' then networkEnv
             else ''solana-devnet'');
          treasury = env ''TREASURY_WALLET_ADDRESS'';
          feePayer =
            or_else (or_else (env ''X402_FACILITATOR_FEE_PAYER'') (env ''NEXT_PUBLIC_X402_FEE_PAYER''))
              (env ''FACILITATOR_FEE_PAYER'');
          isProduction = (env ''NODE_ENV'' = Some ''production'');
          resolvedTreasury = or_default treasury ''11111111111111111111111111111111''
      in if \<not> truthy treasury \<and> isProduction
         then Inl (Error ''TREASURY_WALLET_ADDRESS environment variable is required'')
         else Inr \<lparr>cfg_network = network,
                    treasuryWallet = resolvedTreasury,
                    baseUrl = or_default (env ''NEXT_PUBLIC_BASE_URL'') ''http://localhost:3000'',
                    facilitatorUrl =
                      or_default (or_else (env ''X402_FACILITATOR_URL'') (env ''FACILITATOR_URL''))
                        ''https://facilitator.payai.network'',
                    facilitatorFeePayer = or_default feePayer resolvedTreasury,
                    usdcMint = USDC_MINT_ADDRESSES network\<rparr>)"

record PaymentRequirements =
  scheme :: string
  network :: string
  maxAmountRequired :: "string option"  \<comment> \<open>\<^const>\<open>None\<close>: \<^verbatim>\<open>undefined\<close>\<close>
  resource :: string
  description :: string
  mimeType :: string
  payTo :: string
  maxTimeoutSeconds :: nat
  asset :: string
  extra_feePayer :: string

definition createChatPaymentRequirements ::
  "env \<Rightarrow> string \<Rightarrow> bool \<Rightarrow> string \<Rightarrow> error + PaymentRequirements" where
  "createChatPaymentRequirements env model hasVision endpoint =
     (case getX402Config env of
        Inl e \<Rightarrow> Inl e
      | Inr config \<Rightarrow>
          (case getModelPrice env model hasVision of
             Inl e \<Rightarrow> Inl e
           | Inr price \<Rightarrow>
               (case AI_MODEL_PRICING_get env model of
                  None \<Rightarrow> Inl (Error ''TypeError'')
                    \<comment> \<open>not reached: \<^const>\<open>getModelPrice\<close> has thrown\<close>
                | Some modelConfig \<Rightarrow>
                    Inr \<lparr>scheme = ''exact'',
                         network = cfg_network config,
                         maxAmountRequired = price,
                         resource = baseUrl config @ endpoint,
                         description =
                           ''AI Chat - '' @
                           (case modelConfig of
                              Own c \<Rightarrow> name c
                            | Inherited n \<Rightarrow> interpolate n) @ '' '' @
                           (if hasVision then ''(Vision)'' else []),
                         mimeType = ''application/json'',
                         payTo = treasuryWallet config,
                         maxTimeoutSeconds = 300,
                         asset = usdcMint config,
                         extra_feePayer = facilitatorFeePayer config\<rparr>)))"

section \<open>The facilitator\<close>

text \<open>
  The body of a facilitator response, parsed as JSON and seen through the properties the
  interfaces \<^verbatim>\<open>FacilitatorVerifyResponse\<close> and \<^verbatim>\<open>FacilitatorSettleResponse\<close> declare,
  all of them optional: a JSON value that is no object has none of them. Of \<^verbatim>\<open>isValid\<close>
  and \<^verbatim>\<open>success\<close> the truthiness is kept, which is what \<^verbatim>\<open>Boolean\<close> reads.
\<close>

record FacilitatorJson =
  j_isValid :: "bool option"
  j_success :: "bool option"
  j_error :: "string option"
  j_invalidReason :: "string option"
  j_payer :: "string option"
  j_transaction :: "string option"
  j_amount :: "string option"
  j_networkId :: "string option"

datatype json_body = Unparseable | JsonNull | JsonObject FacilitatorJson

datatype fetch_result =
    FetchRejected error  \<comment> \<open>the transport failed: \<^verbatim>\<open>fetch\<close> rejects\<close>
  | HttpResponse nat json_body  \<comment> \<open>status, and what \<^verbatim>\<open>response.json()\<close> gives\<close>

datatype event =
    Post string  \<comment> \<open>\<^verbatim>\<open>callFacilitator\<close> calls \<^verbatim>\<open>fetch\<close> with this URL\<close>
  | Verified bool  \<comment> \<open>\<^verbatim>\<open>verifyPayment\<close> returns, with this \<^verbatim>\<open>isValid\<close>\<close>
  | Settled bool  \<comment> \<open>\<^verbatim>\<open>settlePayment\<close> returns, with this \<^verbatim>\<open>success\<close>\<close>
  | Handled  \<comment> \<open>the middleware calls the wrapped handler\<close>

text \<open>
  What one request sees of the outside: the process environment, the platform's decoding
  of the payment header (\<^verbatim>\<open>JSON.parse(decodeBase64(h))\<close>, \<^const>\<open>None\<close> when either
  throws), the facilitator behind \<^verbatim>\<open>fetch\<close>, and the clock.
\<close>

record 'p world =
  process_env :: env
  decodePayment :: "string \<Rightarrow> 'p option"
  fetch :: "string \<Rightarrow> 'p \<times> PaymentRequirements \<Rightarrow> fetch_result"
  now :: string

fun string_of_nat :: "nat \<Rightarrow> string" where
  "string_of_nat n =
     (if n < 10 then [''0123456789'' ! n]
      else string_of_nat (n div 10) @ [''0123456789'' ! (n mod 10)])"

definition response_ok :: "nat \<Rightarrow> bool" where
  \<comment> \<open>\<^verbatim>\<open>response.ok\<close>\<close>
  "response_ok st = (200 \<le> st \<and> st \<le> 299)"

definition callFacilitator ::
  "'p world \<Rightarrow> string \<Rightarrow> 'p \<times> PaymentRequirements \<Rightarrow> string
     \<Rightarrow> (error + FacilitatorJson option) \<times> event list" where
  \<comment> \<open>the value returned is \<^const>\<open>None\<close> for a JSON \<^verbatim>\<open>null\<close>; every failure is rethrown\<close>
  "callFacilitator w endpoint payload url =
     ((case fetch w (url @ endpoint) payload of
         FetchRejected e \<Rightarrow> Inl e
       | HttpResponse st b \<Rightarrow>
           if \<not> response_ok st then Inl (Error (''Facilitator API error: '' @ string_of_nat st))
           else (case b of
                   Unparseable \<Rightarrow> Inl (Error ''SyntaxError'')
                 | JsonNull \<Rightarrow> Inr None
                 | JsonObject r \<Rightarrow> Inr (Some r))),
      [Post (url @ endpoint)])"

record VerificationResult =
  isValid :: bool
  v_error :: "string option"
  invalidReason :: "string option"
  payer :: "string option"

record SettlementResult =
  success :: bool
  transaction :: "string option"
  amount :: "string option"
  s_error :: "string option"
  networkId :: "string option"

definition Boolean :: "bool option \<Rightarrow> bool" where
  "Boolean v = (case v of None \<Rightarrow> False | Some b \<Rightarrow> b)"

definition verification_failed :: VerificationResult where
  \<comment> \<open>the value of the \<^verbatim>\<open>catch\<close> block of \<^verbatim>\<open>verifyPayment\<close>\<close>
  "verification_failed =
     \<lparr>isValid = False, v_error = Some ''Payment verification failed'',
      invalidReason = None, payer = None\<rparr>"

definition settlement_failed :: SettlementResult where
  \<comment> \<open>the value of the \<^verbatim>\<open>catch\<close> block of \<^verbatim>\<open>settlePayment\<close>\<close>
  "settlement_failed =
     \<lparr>success = False, transaction = None, amount = None,
      s_error = Some ''Payment settlement failed'', networkId = None\<rparr>"

definition verifyPayment ::
  "'p world \<Rightarrow> X402Config \<Rightarrow> string \<Rightarrow> string \<Rightarrow> bool \<Rightarrow> string
     \<Rightarrow> VerificationResult \<times> event list" where
  \<comment> \<open>the whole body stands in one \<^verbatim>\<open>try\<close>: whatever throws gives \<^const>\<open>verification_failed\<close>\<close>
  "verifyPayment w this paymentHeader model hasVision endpoint =
     (case
        (case createChatPaymentRequirements (process_env w) model hasVision endpoint of
           Inl e \<Rightarrow> (verification_failed, [])
         | Inr requirements \<Rightarrow>
             (case decodePayment w paymentHeader of
                None \<Rightarrow> (verification_failed, [])
              | Some payment \<Rightarrow>
                  (case callFacilitator w ''/verify'' (payment, requirements) (facilitatorUrl this) of
                     (Inl e, tr) \<Rightarrow> (verification_failed, tr)
                   | (Inr None, tr) \<Rightarrow> (verification_failed, tr)
                   | (Inr (Some result), tr) \<Rightarrow>
                       (\<lparr>isValid = Boolean (j_isValid result), v_error = j_error result,
                         invalidReason = j_invalidReason result, payer = j_payer result\<rparr>, tr))))
      of (verification, tr) \<Rightarrow> (verification, tr @ [Verified (isValid verification)]))"

definition settlePayment ::
  "'p world \<Rightarrow> X402Config \<Rightarrow> string \<Rightarrow> string \<Rightarrow> bool \<Rightarrow> string
     \<Rightarrow> SettlementResult \<times> event list" where
  "settlePayment w this paymentHeader model hasVision endpoint =
     (case
        (case createChatPaymentRequirements (process_env w) model hasVision endpoint of
           Inl e \<Rightarrow> (settlement_failed, [])
         | Inr requirements \<Rightarrow>
             (case decodePayment w paymentHeader of
                None \<Rightarrow> (settlement_failed, [])
              | Some payment \<Rightarrow>
                  (case callFacilitator w ''/settle'' (payment, requirements) (facilitatorUrl this) of
                     (Inl e, tr) \<Rightarrow> (settlement_failed, tr)
                   | (Inr None, tr) \<Rightarrow> (settlement_failed, tr)
                   | (Inr (Some result), tr) \<Rightarrow>
                       (\<lparr>success = Boolean (j_success result), transaction = j_transaction result,
                         amount = j_amount result, s_error = j_error result,
                         networkId = j_networkId result\<rparr>, tr))))
      of (settlement, tr) \<Rightarrow> (settlement, tr @ [Settled (success settlement)]))"

section \<open>Requests and responses\<close>

text \<open>
  A \<^verbatim>\<open>Headers\<close> object is a map from lower-case header names to values: it compares
  names without case. A number is a rational: the code only compares and clamps numbers,
  and every finite double is a rational.
\<close>

type_synonym headers = "string \<rightharpoonup> string"

type_synonym number = rat

definition lower_char :: "char \<Rightarrow> char" where
  "lower_char c =
     (case map_of (zip ''ABCDEFGHIJKLMNOPQRSTUVWXYZ'' ''abcdefghijklmnopqrstuvwxyz'') c of
        None \<Rightarrow> c | Some l \<Rightarrow> l)"

definition Headers_get :: "headers \<Rightarrow> string \<Rightarrow> string option" where
  "Headers_get h n = h (map lower_char n)"

definition Headers_set :: "headers \<Rightarrow> string \<Rightarrow> string \<Rightarrow> headers" where
  "Headers_set h n v = h(map lower_char n \<mapsto> v)"

datatype 'a field =
    Missing  \<comment> \<open>the property is absent\<close>
  | Mistyped  \<comment> \<open>it is there and is not of the declared type\<close>
  | Given 'a

record AttachmentPayload =
  a_name :: "string option"  \<comment> \<open>\<^const>\<open>None\<close>: not a string\<close>
  a_type :: "string option"
  a_size :: "number option"  \<comment> \<open>\<^verbatim>\<open>Number(size)\<close>; \<^const>\<open>None\<close>: not finite\<close>
  a_dataUrl :: "string option"

record ChatRequest =
  q_message :: "string option"
  q_walletAddress :: "string option"
  q_chatId :: "string option"
  q_model :: "string field"
  q_temperature :: "number option"
  q_maxTokens :: "number option"
  q_files :: "AttachmentPayload option list option"
    \<comment> \<open>\<^const>\<open>None\<close>: not an array; an entry \<^const>\<open>None\<close>: not an object\<close>

record Request =
  req_method :: string
  req_headers :: headers
  json :: "ChatRequest option"  \<comment> \<open>\<^verbatim>\<open>request.json()\<close>; \<^const>\<open>None\<close>: it throws\<close>

datatype body =
    NullBody
  | Disturbed  \<comment> \<open>a body stream that has been read, or is locked to a reader\<close>
  | JsonPaymentRequired nat string "PaymentRequirements list"
      \<comment> \<open>\<^verbatim>\<open>{x402Version, error, accepts}\<close>\<close>
  | JsonError string "string option"  \<comment> \<open>\<^verbatim>\<open>{error, details?}\<close>\<close>
  | JsonChat string
      \<comment> \<open>\<^verbatim>\<open>{message, model, chatId, tokenUsage, cost, timestamp}\<close>, of which the model is kept\<close>
  | Text string  \<comment> \<open>any other body\<close>

record Response =
  status :: nat
  statusText :: string
  headers :: headers
  body :: body

definition null_body_status :: "nat \<Rightarrow> bool" where
  "null_body_status st = (st \<in> {101, 103, 204, 205, 304})"

definition new_Response :: "body \<Rightarrow> nat \<Rightarrow> string \<Rightarrow> headers \<Rightarrow> error + Response" where
  \<comment> \<open>\<^verbatim>\<open>new Response(body, {status, statusText, headers})\<close>, for a status text and headers
      taken from a response; the constructor refuses a status outside 200 to 599, a body
      with a status that allows none, and a body stream that is disturbed or locked\<close>
  "new_Response b st text h =
     (if b = Disturbed then Inl (Error ''TypeError'')
      else if st < 200 \<or> 599 < st then Inl (Error ''RangeError'')
      else if b \<noteq> NullBody \<and> null_body_status st then Inl (Error ''TypeError'')
      else Inr \<lparr>status = st, statusText = text, headers = h, body = b\<rparr>)"

section \<open>The payment handler\<close>

definition extractPaymentHeader :: "headers \<Rightarrow> string option" where
  "extractPaymentHeader h = Headers_get h ''X-PAYMENT''"

definition create402Response ::
  "env \<Rightarrow> string \<Rightarrow> bool \<Rightarrow> string \<Rightarrow> string option \<Rightarrow> error + Response" where
  "create402Response env model hasVision endpoint err =
     (case createChatPaymentRequirements env model hasVision endpoint of
        Inl e \<Rightarrow> Inl e
      | Inr requirements \<Rightarrow>
          Inr \<lparr>status = 402, statusText = [],
               headers =
                 [''content-type'' \<mapsto> ''application/json'',
                  ''access-control-allow-origin'' \<mapsto> ''*'',
                  ''access-control-allow-methods'' \<mapsto> ''GET, POST, OPTIONS'',
                  ''access-control-allow-headers'' \<mapsto> ''Content-Type, X-PAYMENT'',
                  ''access-control-expose-headers'' \<mapsto> ''X-PAYMENT-RESPONSE''],
               body = JsonPaymentRequired 1 (or_default err ''Payment required'') [requirements]\<rparr>)"

datatype FlowResult =
    Rejected Response  \<comment> \<open>\<^verbatim>\<open>{success: false, response}\<close>\<close>
  | Granted SettlementResult "string option"  \<comment> \<open>\<^verbatim>\<open>{success: true, settlementResult, paymentAmount}\<close>\<close>

definition reject402 ::
  "env \<Rightarrow> string \<Rightarrow> bool \<Rightarrow> string \<Rightarrow> string option \<Rightarrow> error + FlowResult" where
  "reject402 env model hasVision endpoint err =
     (case create402Response env model hasVision endpoint err of
        Inl e \<Rightarrow> Inl e
      | Inr r \<Rightarrow> Inr (Rejected r))"

definition handlePaymentFlow ::
  "'p world \<Rightarrow> X402Config \<Rightarrow> Request \<Rightarrow> string \<Rightarrow> bool \<Rightarrow> string
     \<Rightarrow> (error + FlowResult) \<times> event list" where
  "handlePaymentFlow w this request model hasVision endpoint =
     (let paymentHeader = extractPaymentHeader (req_headers request) in
      if \<not> truthy paymentHeader
      then (reject402 (process_env w) model hasVision endpoint None, [])
      else
        (case verifyPayment w this (or_default paymentHeader []) model hasVision endpoint of
           (verification, tr1) \<Rightarrow>
             if \<not> isValid verification
             then (reject402 (process_env w) model hasVision endpoint
                     (Some (''Payment verification failed: '' @ interpolate (v_error verification))),
                   tr1)
             else
               (case settlePayment w this (or_default paymentHeader []) model hasVision endpoint of
                  (settlement, tr2) \<Rightarrow>
                    if \<not> success settlement
                    then (reject402 (process_env w) model hasVision endpoint
                            (Some (''Payment settlement failed: '' @ interpolate (s_error settlement))),
                          tr1 @ tr2)
                    else
                      ((case getModelPrice (process_env w) model hasVision of
                          Inl e \<Rightarrow> Inl e
                        | Inr price \<Rightarrow> Inr (Granted settlement price)),
                       tr1 @ tr2))))"

subsection \<open>The settlement receipt\<close>

definition json_escape :: "char \<Rightarrow> string" where
  \<comment> \<open>one character inside a string of \<^verbatim>\<open>JSON.stringify\<close>\<close>
  "json_escape c =
     (let n = (of_char c :: nat) in
      if n = 0x22 then [CHR 0x5C, CHR 0x22]
      else if n = 0x5C then [CHR 0x5C, CHR 0x5C]
      else if n = 8 then [CHR 0x5C, CHR ''b'']
      else if n = 9 then [CHR 0x5C, CHR ''t'']
      else if n = 10 then [CHR 0x5C, CHR ''n'']
      else if n = 12 then [CHR 0x5C, CHR ''f'']
      else if n = 13 then [CHR 0x5C, CHR ''r'']
      else if n < 32
        then [CHR 0x5C, CHR ''u'', CHR ''0'', CHR ''0'',
              ''0123456789abcdef'' ! (n div 16), ''0123456789abcdef'' ! (n mod 16)]
      else [c])"

definition json_string :: "string \<Rightarrow> string" where
  "json_string s = [CHR 0x22] @ concat (map json_escape s) @ [CHR 0x22]"

record PaymentResponse =
  pr_transaction :: string
  pr_network :: string
  pr_amount :: string
  pr_timestamp :: string

definition JSON_stringify :: "PaymentResponse \<Rightarrow> string" where
  \<comment> \<open>of the object literal \<^verbatim>\<open>{success: true, transaction, network, amount, timestamp}\<close>\<close>
  "JSON_stringify r =
     ''{'' @ json_string ''success'' @ '':true,'' @
     json_string ''transaction'' @ '':'' @ json_string (pr_transaction r) @ '','' @
     json_string ''network'' @ '':'' @ json_string (pr_network r) @ '','' @
     json_string ''amount'' @ '':'' @ json_string (pr_amount r) @ '','' @
     json_string ''timestamp'' @ '':'' @ json_string (pr_timestamp r) @ ''}''"

fun latin1 :: "string \<Rightarrow> nat list option" where
  \<comment> \<open>the code units of a string whose characters are all at most U+00FF, read off its
      UTF-8 bytes; \<^const>\<open>None\<close> when some character is beyond\<close>
  "latin1 [] = Some []"
| "latin1 (c # cs) =
     (if (of_char c :: nat) < 128 then map_option ((#) (of_char c)) (latin1 cs)
      else if of_char c = (0xC2 :: nat) \<or> of_char c = (0xC3 :: nat) then
        (case cs of
           [] \<Rightarrow> None
         | d # ds \<Rightarrow> map_option ((#) ((of_char c - 0xC2) * 64 + of_char d)) (latin1 ds))
      else None)"

definition b64 :: "nat \<Rightarrow> char" where
  "b64 n = ''ABCDEFGHIJKLMNOPQRSTUVWXYZabcdefghijklmnopqrstuvwxyz0123456789+/'' ! n"

fun base64 :: "nat list \<Rightarrow> string" where
  "base64 (x # y # z # rest) =
     [b64 (x div 4), b64 ((x mod 4) * 16 + y div 16), b64 ((y mod 16) * 4 + z div 64),
      b64 (z mod 64)] @ base64 rest"
| "base64 [x, y] =
     [b64 (x div 4), b64 ((x mod 4) * 16 + y div 16), b64 ((y mod 16) * 4), CHR ''='']"
| "base64 [x] = [b64 (x div 4), b64 ((x mod 4) * 16), CHR ''='', CHR ''='']"
| "base64 [] = []"

definition btoa :: "string \<Rightarrow> error + string" where
  "btoa s =
     (case latin1 s of
        None \<Rightarrow> Inl (Error ''InvalidCharacterError'')
      | Some units \<Rightarrow> Inr (base64 units))"

definition paymentResponse :: "'p world \<Rightarrow> X402Config \<Rightarrow> SettlementResult \<Rightarrow> PaymentResponse" where
  \<comment> \<open>the object \<^verbatim>\<open>paymentResponse\<close> of \<^verbatim>\<open>addPaymentResponseHeaders\<close>, built when the
      transaction is truthy\<close>
  "paymentResponse w this settlement =
     \<lparr>pr_transaction = or_default (transaction settlement) [],
      pr_network = cfg_network this,
      pr_amount = or_default (amount settlement) ''0'',
      pr_timestamp = now w\<rparr>"

definition addPaymentResponseHeaders ::
  "'p world \<Rightarrow> X402Config \<Rightarrow> Response \<Rightarrow> SettlementResult \<Rightarrow> error + Response" where
  "addPaymentResponseHeaders w this response settlement =
     (if success settlement \<and> truthy (transaction settlement) then
        (case btoa (JSON_stringify (paymentResponse w this settlement)) of
           Inl e \<Rightarrow> Inl e
         | Inr receipt \<Rightarrow>
             new_Response (body response) (status response) (statusText response)
               (Headers_set (Headers_set (headers response) ''X-PAYMENT-RESPONSE'' receipt)
                  ''Access-Control-Expose-Headers'' ''X-PAYMENT-RESPONSE''))
      else Inr response)"

subsection \<open>The middleware\<close>

record X402PaymentContext =
  ctx_settlementResult :: SettlementResult
  ctx_paymentAmount :: "string option"

definition preflight :: Response where
  "preflight =
     \<lparr>status = 200, statusText = [],
      headers =
        [''access-control-allow-origin'' \<mapsto> ''*'',
         ''access-control-allow-methods'' \<mapsto> ''GET, POST, OPTIONS'',
         ''access-control-allow-headers'' \<mapsto> ''Content-Type, X-PAYMENT'',
         ''access-control-expose-headers'' \<mapsto> ''X-PAYMENT-RESPONSE''],
      body = NullBody\<rparr>"

definition processing_error :: Response where
  \<comment> \<open>the response of the middleware's \<^verbatim>\<open>catch\<close> block\<close>
  "processing_error =
     \<lparr>status = 500, statusText = [], headers = [''content-type'' \<mapsto> ''application/json''],
      body = JsonError ''Payment processing error'' None\<rparr>"

definition request_model :: "string \<Rightarrow> Request \<Rightarrow> string" where
  \<comment> \<open>the model the middleware reads from the request body: \<^verbatim>\<open>body.model\<close> when it is a
      non-empty string, the default when it is not or the body does not parse\<close>
  "request_model defaultModel req =
     (case json req of
        None \<Rightarrow> defaultModel
      | Some b \<Rightarrow>
          (case q_model b of
             Given m \<Rightarrow> if m = [] then defaultModel else m
           | _ \<Rightarrow> defaultModel))"

definition default_endpoint :: "string option \<Rightarrow> string" where
  \<comment> \<open>the default value of the parameter \<^verbatim>\<open>endpoint\<close> of the handler's methods\<close>
  "default_endpoint endpoint = (case endpoint of None \<Rightarrow> ''/api/chat'' | Some p \<Rightarrow> p)"

definition withX402Payment ::
  "'p world \<Rightarrow> (Request \<Rightarrow> X402PaymentContext \<Rightarrow> error + Response) \<Rightarrow> string \<Rightarrow> bool
     \<Rightarrow> string option \<Rightarrow> Request \<Rightarrow> Response \<times> event list" where
  "withX402Payment w handler defaultModel hasVision endpoint req =
     (if req_method req = ''OPTIONS'' then (preflight, [])
      else
        let model = request_model defaultModel req in
          (case getX402Config (process_env w) of
             Inl e \<Rightarrow> (processing_error, [])
           | Inr this \<Rightarrow>
               (case handlePaymentFlow w this req model hasVision (default_endpoint endpoint) of
                  (Inl e, tr) \<Rightarrow> (processing_error, tr)
                | (Inr (Rejected r), tr) \<Rightarrow> (r, tr)
                | (Inr (Granted settlement price), tr) \<Rightarrow>
                    ((case handler req
                             \<lparr>ctx_settlementResult = settlement, ctx_paymentAmount = price\<rparr> of
                        Inl e \<Rightarrow> processing_error
                      | Inr response \<Rightarrow>
                          (case addPaymentResponseHeaders w this response settlement of
                             Inl e \<Rightarrow> processing_error
                           | Inr r \<Rightarrow> r)),
                     tr @ [Handled]))))"

definition gate_trace ::
  "'p world \<Rightarrow> (Request \<Rightarrow> X402PaymentContext \<Rightarrow> error + Response) \<Rightarrow> string \<Rightarrow> bool
     \<Rightarrow> string option \<Rightarrow> Request \<Rightarrow> event list" where
  \<comment> \<open>what one request makes the middleware do, in order\<close>
  "gate_trace w handler defaultModel hasVision endpoint req =
     snd (withX402Payment w handler defaultModel hasVision endpoint req)"

definition gate_response ::
  "'p world \<Rightarrow> (Request \<Rightarrow> X402PaymentContext \<Rightarrow> error + Response) \<Rightarrow> string \<Rightarrow> bool
     \<Rightarrow> string option \<Rightarrow> Request \<Rightarrow> Response" where
  "gate_response w handler defaultModel hasVision endpoint req =
     fst (withX402Payment w handler defaultModel hasVision endpoint req)"


subsection \<open>The answers of the facilitator, and the calls they allow\<close>

text \<open>
  The order of calls that the specification asks of the gate, written from the answers of
  the facilitator: verification first; settlement exactly when the facilitator has
  answered the verification with a 2xx response that says \<^verbatim>\<open>isValid: true\<close>; the handler
  exactly when it has then answered the settlement with a 2xx response that says
  \<^verbatim>\<open>success: true\<close>.
\<close>

definition proof_of :: "'p world \<Rightarrow> Request \<Rightarrow> (X402Config \<times> string) option" where
  \<comment> \<open>the configuration and the payment header of a request that offers a payment: it is
      no preflight, the configuration resolves, and the header is there and not empty\<close>
  "proof_of w req =
     (if req_method req = ''OPTIONS'' then None
      else
        (case getX402Config (process_env w) of
           Inl e \<Rightarrow> None
         | Inr this \<Rightarrow>
             (case extractPaymentHeader (req_headers req) of
                None \<Rightarrow> None
              | Some h \<Rightarrow> if h = [] then None else Some (this, h))))"

definition payload ::
  "'p world \<Rightarrow> string \<Rightarrow> string \<Rightarrow> bool \<Rightarrow> string \<Rightarrow> ('p \<times> PaymentRequirements) option" where
  \<comment> \<open>what is sent to the facilitator for a payment header: the decoded payment with the
      requirements; \<^const>\<open>None\<close> when one of the two cannot be built\<close>
  "payload w paymentHeader model hasVision endpoint =
     (case createChatPaymentRequirements (process_env w) model hasVision endpoint of
        Inl e \<Rightarrow> None
      | Inr requirements \<Rightarrow>
          (case decodePayment w paymentHeader of
             None \<Rightarrow> None
           | Some payment \<Rightarrow> Some (payment, requirements)))"

definition says_valid :: "fetch_result \<Rightarrow> bool" where
  \<comment> \<open>a 2xx response whose JSON body has a truthy \<^verbatim>\<open>isValid\<close>\<close>
  "says_valid r =
     (case r of
        FetchRejected e \<Rightarrow> False
      | HttpResponse st b \<Rightarrow>
          response_ok st \<and> (case b of JsonObject j \<Rightarrow> j_isValid j = Some True | _ \<Rightarrow> False))"

definition says_settled :: "fetch_result \<Rightarrow> bool" where
  \<comment> \<open>a 2xx response whose JSON body has a truthy \<^verbatim>\<open>success\<close>\<close>
  "says_settled r =
     (case r of
        FetchRejected e \<Rightarrow> False
      | HttpResponse st b \<Rightarrow>
          response_ok st \<and> (case b of JsonObject j \<Rightarrow> j_success j = Some True | _ \<Rightarrow> False))"

definition gate_calls :: "'p world \<Rightarrow> string \<Rightarrow> bool \<Rightarrow> string option \<Rightarrow> Request \<Rightarrow> event list" where
  "gate_calls w defaultModel hasVision endpoint req =
     (case proof_of w req of
        None \<Rightarrow> []
      | Some (this, h) \<Rightarrow>
          (case payload w h (request_model defaultModel req) hasVision (default_endpoint endpoint) of
             None \<Rightarrow> [Verified False]
           | Some sent \<Rightarrow>
               (let verify = facilitatorUrl this @ ''/verify'';
                    settle = facilitatorUrl this @ ''/settle''
                in if \<not> says_valid (fetch w verify sent) then [Post verify, Verified False]
                   else if \<not> says_settled (fetch w settle sent)
                     then [Post verify, Verified True, Post settle, Settled False]
                   else [Post verify, Verified True, Post settle, Settled True, Handled])))"

subsection \<open>A facilitator that accepts, and a paid request\<close>

definition accepting :: FacilitatorJson where
  "accepting =
     \<lparr>j_isValid = Some True, j_success = Some True, j_error = None, j_invalidReason = None,
      j_payer = None, j_transaction = Some ''abc123'', j_amount = Some ''100000'',
      j_networkId = None\<rparr>"

definition paid_world :: "string world" where
  "paid_world =
     \<lparr>process_env = Map.empty, decodePayment = Some,
      fetch = (\<lambda>url payload. HttpResponse 200 (JsonObject accepting)),
      now = ''2025-01-01T00:00:00.000Z''\<rparr>"

definition failing_world :: "string world" where
  \<comment> \<open>the facilitator answers every call with status 503\<close>
  "failing_world =
     \<lparr>process_env = Map.empty, decodePayment = Some,
      fetch = (\<lambda>url payload. HttpResponse 503 Unparseable),
      now = ''2025-01-01T00:00:00.000Z''\<rparr>"

definition refusing :: FacilitatorJson where
  "refusing =
     \<lparr>j_isValid = Some False, j_success = None, j_error = Some ''bad signature'',
      j_invalidReason = Some ''invalid_signature'', j_payer = None, j_transaction = None,
      j_amount = None, j_networkId = None\<rparr>"

definition refusing_world :: "string world" where
  \<comment> \<open>the facilitator answers every call with status 200 and \<^verbatim>\<open>isValid: false\<close>\<close>
  "refusing_world =
     \<lparr>process_env = Map.empty, decodePayment = Some,
      fetch = (\<lambda>url payload. HttpResponse 200 (JsonObject refusing)),
      now = ''2025-01-01T00:00:00.000Z''\<rparr>"

definition ok_handler :: "Request \<Rightarrow> X402PaymentContext \<Rightarrow> error + Response" where
  "ok_handler req ctx =
     Inr \<lparr>status = 200, statusText = [], headers = [''content-type'' \<mapsto> ''application/json''],
          body = Text ''{}''\<rparr>"

definition paid_request :: Request where
  "paid_request = \<lparr>req_method = ''POST'', req_headers = [''x-payment'' \<mapsto> ''e30=''], json = None\<rparr>"

definition paid_for :: "string \<Rightarrow> Request" where
  \<comment> \<open>a request with a payment header, for the given model\<close>
  "paid_for m =
     \<lparr>req_method = ''POST'', req_headers = [''x-payment'' \<mapsto> ''e30=''],
      json = Some \<lparr>q_message = Some ''hi'', q_walletAddress = Some ''wallet'', q_chatId = None,
                   q_model = Given m, q_temperature = None, q_maxTokens = None,
                   q_files = None\<rparr>\<rparr>"

definition unpaid_request :: "string \<Rightarrow> Request" where
  \<comment> \<open>a request with no payment header, for the given model\<close>
  "unpaid_request m =
     \<lparr>req_method = ''POST'', req_headers = Map.empty,
      json = Some \<lparr>q_message = Some ''hi'', q_walletAddress = Some ''wallet'', q_chatId = None,
                   q_model = Given m, q_temperature = None, q_maxTokens = None,
                   q_files = None\<rparr>\<rparr>"

definition facilitator_failure :: "fetch_result \<Rightarrow> bool" where
  \<comment> \<open>a transport error, or a response whose status is not 2xx\<close>
  "facilitator_failure r =
     (case r of FetchRejected e \<Rightarrow> True | HttpResponse st b \<Rightarrow> \<not> response_ok st)"

definition default_config :: X402Config where
  \<comment> \<open>the configuration of an empty environment\<close>
  "default_config =
     \<lparr>cfg_network = ''solana-devnet'',
      treasuryWallet = ''11111111111111111111111111111111'',
      baseUrl = ''http://localhost:3000'',
      facilitatorUrl = ''https://facilitator.payai.network'',
      facilitatorFeePayer = ''11111111111111111111111111111111'',
      usdcMint = ''4zMMC9srt5Ri5X14GAgXhaHii3GnPAEERYPJgZJDncDU''\<rparr>"

definition deepseek_requirements :: PaymentRequirements where
  \<comment> \<open>what an empty environment asks for a message to \<^verbatim>\<open>deepseek\<close>\<close>
  "deepseek_requirements =
     \<lparr>scheme = ''exact'', network = ''solana-devnet'',
      maxAmountRequired = Some ''30000'',
      resource = ''http://localhost:3000/api/chat'',
      description = ''AI Chat - Deepseek Chat '',
      mimeType = ''application/json'',
      payTo = ''11111111111111111111111111111111'',
      maxTimeoutSeconds = 300,
      asset = ''4zMMC9srt5Ri5X14GAgXhaHii3GnPAEERYPJgZJDncDU'',
      extra_feePayer = ''11111111111111111111111111111111''\<rparr>"

definition vision_priced_world :: "string world" where
  \<comment> \<open>only \<^verbatim>\<open>PRICE_DEEPSEEK_VISION\<close> is set\<close>
  "vision_priced_world = paid_world\<lparr>process_env := [''PRICE_DEEPSEEK_VISION'' \<mapsto> ''50000'']\<rparr>"

definition production_world :: "string world" where
  \<comment> \<open>production, with no treasury address\<close>
  "production_world = paid_world\<lparr>process_env := [''NODE_ENV'' \<mapsto> ''production'']\<rparr>"

definition constructor_requirements :: PaymentRequirements where
  \<comment> \<open>what an empty environment asks for a message to the model id \<^verbatim>\<open>constructor\<close>\<close>
  "constructor_requirements =
     deepseek_requirements\<lparr>maxAmountRequired := None, description := ''AI Chat - Object ''\<rparr>"

definition supported_models :: "string list" where
  \<comment> \<open>the keys of \<^const>\<open>AI_MODEL_PRICING\<close>\<close>
  "supported_models = [''gpt-5'', ''claude-sonnet-4-5'', ''deepseek'']"

definition price_keys :: "string list" where
  \<comment> \<open>the environment variables \<^const>\<open>AI_MODEL_PRICING\<close> reads\<close>
  "price_keys =
     [''PRICE_GPT'', ''PRICE_CLAUDE'', ''PRICE_DEEPSEEK'', ''PRICE_VISION_ADDON'',
      ''PRICE_DEEPSEEK_VISION'']"

definition configured :: "env \<Rightarrow> string \<Rightarrow> bool" where
  \<comment> \<open>the variable holds a price that \<^const>\<open>getPrice\<close> accepts\<close>
  "configured env k =
     (case env k of None \<Rightarrow> False | Some v \<Rightarrow> v \<noteq> [] \<and> list_all is_digit v)"

section \<open>Chat messages and their conversion (the provider module)\<close>

datatype detail = Low | High | Auto

datatype part =
    TextContent string  \<comment> \<open>\<^verbatim>\<open>{type: 'text', text}\<close>\<close>
  | ImageContent string "detail option"  \<comment> \<open>\<^verbatim>\<open>{type: 'image_url', image_url: {url, detail?}}\<close>\<close>

datatype MessageContent = Plain string | Parts "part list"

datatype role = User | Assistant | System

record ChatMessage =
  role :: role
  content :: MessageContent

record TextMessage =
  tm_role :: role
  tm_content :: string

fun join :: "string \<Rightarrow> string list \<Rightarrow> string" where
  \<comment> \<open>\<^verbatim>\<open>xs.join(sep)\<close>\<close>
  "join sep [] = []"
| "join sep [x] = x"
| "join sep (x # y # ys) = x @ sep @ join sep (y # ys)"

definition images_unsupported :: string where
  \<comment> \<open>the placeholder of \<^verbatim>\<open>toTextOnlyMessage\<close>, a sentence in Russian between square
      brackets, as UTF-8\<close>
  "images_unsupported =
     [CHR 0x5B, CHR 0xD0, CHR 0x98, CHR 0xD0, CHR 0xB7, CHR 0xD0, CHR 0xBE, CHR 0xD0, CHR 0xB1,
      CHR 0xD1, CHR 0x80, CHR 0xD0, CHR 0xB0, CHR 0xD0, CHR 0xB6, CHR 0xD0, CHR 0xB5, CHR 0xD0,
      CHR 0xBD, CHR 0xD0, CHR 0xB8, CHR 0xD1, CHR 0x8F, CHR 0x20, CHR 0xD0, CHR 0xBD, CHR 0xD0,
      CHR 0xB5, CHR 0x20, CHR 0xD0, CHR 0xBF, CHR 0xD0, CHR 0xBE, CHR 0xD0, CHR 0xB4, CHR 0xD0,
      CHR 0xB4, CHR 0xD0, CHR 0xB5, CHR 0xD1, CHR 0x80, CHR 0xD0, CHR 0xB6, CHR 0xD0, CHR 0xB8,
      CHR 0xD0, CHR 0xB2, CHR 0xD0, CHR 0xB0, CHR 0xD1, CHR 0x8E, CHR 0xD1, CHR 0x82, CHR 0xD1,
      CHR 0x81, CHR 0xD1, CHR 0x8F, CHR 0x20] @ ''Deepseek]''"

fun text_of :: "part \<Rightarrow> string option" where
  "text_of (TextContent t) = Some t"
| "text_of (ImageContent url d) = None"

definition textParts :: "part list \<Rightarrow> string list" where
  \<comment> \<open>\<^verbatim>\<open>.filter(item => item.type === 'text').map(item => item.text)\<close>\<close>
  "textParts ps = List.map_filter text_of ps"

definition toTextOnlyMessage :: "ChatMessage \<Rightarrow> TextMessage" where
  "toTextOnlyMessage msg =
     (case content msg of
        Plain s \<Rightarrow> \<lparr>tm_role = role msg, tm_content = s\<rparr>
      | Parts ps \<Rightarrow>
          \<lparr>tm_role = role msg,
           tm_content =
             (if join [CHR 0x0A] (textParts ps) = [] then images_unsupported
              else join [CHR 0x0A] (textParts ps))\<rparr>)"

definition toOpenAIMessage :: "ChatMessage \<Rightarrow> ChatMessage" where
  "toOpenAIMessage msg = \<lparr>role = role msg, content = content msg\<rparr>"

datatype source =
    Base64 string string  \<comment> \<open>\<^verbatim>\<open>{type: 'base64', media_type, data}\<close>\<close>
  | Url string  \<comment> \<open>\<^verbatim>\<open>{type: 'url', url}\<close>\<close>

datatype block = TextBlock string | ImageBlock source

datatype AnthropicContent = Str string | Blocks "block list"

record AnthropicMessage =
  am_role :: role
  am_content :: AnthropicContent

fun has_line_terminator :: "string \<Rightarrow> bool" where
  \<comment> \<open>some character is one that \<^verbatim>\<open>.\<close> does not match: LF, CR, U+2028, U+2029\<close>
  "has_line_terminator [] = False"
| "has_line_terminator (c # cs) =
     (c = CHR 0x0A \<or> c = CHR 0x0D
      \<or> (c = CHR 0xE2 \<and> (take 2 cs = [CHR 0x80, CHR 0xA8] \<or> take 2 cs = [CHR 0x80, CHR 0xA9]))
      \<or> has_line_terminator cs)"

definition match_data_url :: "string \<Rightarrow> (string \<times> string) option" where
  \<comment> \<open>\<^verbatim>\<open>url.match(/^data:(image\/\w+);base64,(.+)$/)\<close>: the two groups of the match. The run
      \<^verbatim>\<open>\w+\<close> is as long as it can be, since the next character has to be \<^verbatim>\<open>;\<close>.\<close>
  "match_data_url url =
     (case strip_prefix ''data:image/'' url of
        None \<Rightarrow> None
      | Some r \<Rightarrow>
          (if takeWhile is_word r = [] then None
           else
             (case strip_prefix '';base64,'' (dropWhile is_word r) of
                None \<Rightarrow> None
              | Some d \<Rightarrow>
                  if d = [] \<or> has_line_terminator d then None
                  else Some (''image/'' @ takeWhile is_word r, d))))"

fun toAnthropicBlock :: "part \<Rightarrow> block" where
  \<comment> \<open>the function mapped over array content by \<^verbatim>\<open>toAnthropicMessage\<close>\<close>
  "toAnthropicBlock (TextContent t) = TextBlock t"
| "toAnthropicBlock (ImageContent url d) =
     (if startsWith url ''data:'' then
        (case match_data_url url of
           Some (media_type, data) \<Rightarrow> ImageBlock (Base64 media_type data)
         | None \<Rightarrow> ImageBlock (Url url))
      else ImageBlock (Url url))"

definition toAnthropicMessage :: "ChatMessage \<Rightarrow> AnthropicMessage" where
  "toAnthropicMessage msg =
     (case content msg of
        Plain s \<Rightarrow> \<lparr>am_role = role msg, am_content = Str s\<rparr>
      | Parts ps \<Rightarrow> \<lparr>am_role = role msg, am_content = Blocks (map toAnthropicBlock ps)\<rparr>)"

definition data_url :: "string \<Rightarrow> string \<Rightarrow> string \<Rightarrow> bool" where
  \<comment> \<open>the pattern, as a set of strings: \<open>url\<close> is \<^verbatim>\<open>data:\<close>, a media type \<^verbatim>\<open>image/\<close> and
      one or more word characters, \<^verbatim>\<open>;base64,\<close>, and one or more characters in one line\<close>
  "data_url url media_type data =
     (\<exists>w. media_type = ''image/'' @ w \<and> w \<noteq> [] \<and> list_all is_word w
          \<and> data \<noteq> [] \<and> \<not> has_line_terminator data
          \<and> url = ''data:'' @ media_type @ '';base64,'' @ data)"

section \<open>The requests of the provider adapters\<close>

record AIProviderConfig =
  c_model :: string
  messages :: "ChatMessage list"
  temperature :: "number option"
  maxTokens :: "number option"
  systemPrompt :: "string option"

record 'm ChatCompletionsBody =
  b_model :: string
  b_messages :: "'m list"
  stream :: bool
  b_temperature :: number
  max_tokens :: number

definition number_or :: "number option \<Rightarrow> number \<Rightarrow> number" where
  \<comment> \<open>\<^verbatim>\<open>x || d\<close> on an optional number: zero is falsy\<close>
  "number_or x d = (case x of None \<Rightarrow> d | Some n \<Rightarrow> if n = 0 then d else n)"

definition DeepseekProvider_request :: "bool \<Rightarrow> AIProviderConfig \<Rightarrow> TextMessage ChatCompletionsBody" where
  \<comment> \<open>the body \<^verbatim>\<open>DeepseekProvider.chat\<close> (\<open>stream = False\<close>) and \<^verbatim>\<open>streamChat\<close> post\<close>
  "DeepseekProvider_request s config =
     \<lparr>b_model = ''deepseek-chat'',
      b_messages = map toTextOnlyMessage (messages config),
      stream = s,
      b_temperature = number_or (temperature config) (7 / 10),
      max_tokens = number_or (maxTokens config) 2000\<rparr>"

definition GPT5Provider_request :: "bool \<Rightarrow> AIProviderConfig \<Rightarrow> ChatMessage ChatCompletionsBody" where
  "GPT5Provider_request s config =
     \<lparr>b_model = ''gpt-4o'',
      b_messages = map toOpenAIMessage (messages config),
      stream = s,
      b_temperature = number_or (temperature config) (7 / 10),
      max_tokens = number_or (maxTokens config) 2000\<rparr>"

record AnthropicBody =
  ab_model :: string
  ab_max_tokens :: number
  ab_temperature :: number
  ab_system :: "string option"
  ab_messages :: "AnthropicMessage list"

definition ClaudeProvider_system :: "AIProviderConfig \<Rightarrow> string option" where
  \<comment> \<open>\<^verbatim>\<open>config.systemPrompt || (the first system message, when its content is a string)\<close>\<close>
  "ClaudeProvider_system config =
     (if truthy (systemPrompt config) then systemPrompt config
      else
        (case find (\<lambda>m. role m = System) (messages config) of
           None \<Rightarrow> None
         | Some m \<Rightarrow> (case content m of Plain s \<Rightarrow> Some s | Parts ps \<Rightarrow> None)))"

definition ClaudeProvider_chat_request :: "AIProviderConfig \<Rightarrow> AnthropicBody" where
  "ClaudeProvider_chat_request config =
     \<lparr>ab_model = ''claude-sonnet-4-5'',
      ab_max_tokens = number_or (maxTokens config) 4096,
      ab_temperature = number_or (temperature config) (7 / 10),
      ab_system = ClaudeProvider_system config,
      ab_messages = map toAnthropicMessage (filter (\<lambda>m. role m \<noteq> System) (messages config))\<rparr>"

subsection \<open>The configuration the chat route builds\<close>

definition resolvedMaxTokens :: "number option \<Rightarrow> number" where
  \<comment> \<open>\<^verbatim>\<open>Math.min(Math.max(maxTokens, 256), 2048)\<close>, where \<^verbatim>\<open>maxTokens\<close> defaults to 1024\<close>
  "resolvedMaxTokens m = min (max (case m of None \<Rightarrow> 1024 | Some n \<Rightarrow> n) 256) 2048"

definition resolvedTemperature :: "number option \<Rightarrow> number" where
  \<comment> \<open>\<^verbatim>\<open>Math.min(Math.max(temperature, 0), 2)\<close>, where \<^verbatim>\<open>temperature\<close> defaults to 0.7\<close>
  "resolvedTemperature t = min (max (case t of None \<Rightarrow> 7 / 10 | Some n \<Rightarrow> n) 0) 2"

definition SYSTEM_PROMPT :: string where
  "SYSTEM_PROMPT =
     ''You are an AI assistant for X402Chatly. Provide concise, accurate answers using clear sentences.'' @
     [CHR 0x0A] @ ''- Do NOT use Markdown symbols such as **, ##, ---, or /// in your replies.'' @
     [CHR 0x0A] @ ''- If you need emphasis, use natural language (for example: '' @ [CHR 0x22] @
       ''Important:'' @ [CHR 0x22] @ '' or '' @ [CHR 0x22] @ ''Key point:'' @ [CHR 0x22] @ '').'' @
     [CHR 0x0A] @ ''- Keep line breaks meaningful and avoid excessive spacing.'' @
     [CHR 0x0A] @ ''- Mention costs or blockchain details only if the user asks.'' @
     [CHR 0x0A] @ ''- If the user asks about payments, remind them that Solana USDC micropayments are handled automatically via X402.'' @
     [CHR 0x0A] @ ''- Never fabricate wallet details or transaction IDs.''"

definition callAIProvider_config ::
  "string \<Rightarrow> ChatMessage list \<Rightarrow> number \<Rightarrow> number \<Rightarrow> AIProviderConfig" where
  \<comment> \<open>the argument \<^verbatim>\<open>callAIProvider\<close> passes to \<^verbatim>\<open>aiProvider.chat\<close>\<close>
  "callAIProvider_config m msgs t n =
     \<lparr>c_model = m, messages = msgs, temperature = Some t, maxTokens = Some n,
      systemPrompt = Some SYSTEM_PROMPT\<rparr>"

section \<open>Streaming\<close>

subsection \<open>White space\<close>

definition js_whitespace :: "string list" where
  \<comment> \<open>the characters \<^verbatim>\<open>\s\<close> matches and \<^verbatim>\<open>trim\<close> removes, each as its UTF-8 bytes: TAB, LF,
      VT, FF, CR, SP, U+00A0, U+1680, U+2000 to U+200A, U+2028, U+2029, U+202F, U+205F,
      U+3000, U+FEFF\<close>
  "js_whitespace =
     [[CHR 0x09], [CHR 0x0A], [CHR 0x0B], [CHR 0x0C], [CHR 0x0D], [CHR 0x20],
      [CHR 0xC2, CHR 0xA0], [CHR 0xE1, CHR 0x9A, CHR 0x80],
      [CHR 0xE2, CHR 0x80, CHR 0x80], [CHR 0xE2, CHR 0x80, CHR 0x81],
      [CHR 0xE2, CHR 0x80, CHR 0x82], [CHR 0xE2, CHR 0x80, CHR 0x83],
      [CHR 0xE2, CHR 0x80, CHR 0x84], [CHR 0xE2, CHR 0x80, CHR 0x85],
      [CHR 0xE2, CHR 0x80, CHR 0x86], [CHR 0xE2, CHR 0x80, CHR 0x87],
      [CHR 0xE2, CHR 0x80, CHR 0x88], [CHR 0xE2, CHR 0x80, CHR 0x89],
      [CHR 0xE2, CHR 0x80, CHR 0x8A], [CHR 0xE2, CHR 0x80, CHR 0xA8],
      [CHR 0xE2, CHR 0x80, CHR 0xA9], [CHR 0xE2, CHR 0x80, CHR 0xAF],
      [CHR 0xE2, CHR 0x81, CHR 0x9F], [CHR 0xE3, CHR 0x80, CHR 0x80],
      [CHR 0xEF, CHR 0xBB, CHR 0xBF]]"

definition js_line_terminators :: "string list" where
  "js_line_terminators =
     [[CHR 0x0A], [CHR 0x0D], [CHR 0xE2, CHR 0x80, CHR 0xA8], [CHR 0xE2, CHR 0x80, CHR 0xA9]]"

definition ws_length :: "string \<Rightarrow> nat" where
  \<comment> \<open>the number of bytes of the white-space character \<open>s\<close> starts with, or 0\<close>
  "ws_length s =
     (case find (\<lambda>p. strip_prefix p s \<noteq> None) js_whitespace of
        None \<Rightarrow> 0
      | Some p \<Rightarrow> length p)"

function tokens :: "string \<Rightarrow> string list" where
  \<comment> \<open>a string cut into its white-space characters and its other bytes\<close>
  "tokens s =
     (if s = [] then []
      else take (max 1 (ws_length s)) s # tokens (drop (max 1 (ws_length s)) s))"
  by pat_completeness auto
termination
  by (relation "measure length") auto

declare tokens.simps [simp del]

definition is_space :: "string \<Rightarrow> bool" where
  "is_space t = (t \<in> set js_whitespace)"

definition is_line_end :: "string \<Rightarrow> bool" where
  "is_line_end t = (t \<in> set js_line_terminators)"

definition trim :: "string \<Rightarrow> string" where
  \<comment> \<open>\<^verbatim>\<open>s.trim()\<close>\<close>
  "trim s = concat (rev (dropWhile is_space (rev (dropWhile is_space (tokens s)))))"

subsection \<open>The chunk sequence of \<^verbatim>\<open>streamChat\<close>\<close>

record StreamChunk =
  chunk_text :: string
  isComplete :: bool

definition done_chunk :: StreamChunk where
  "done_chunk = \<lparr>chunk_text = [], isComplete = True\<rparr>"

datatype delta_result =
    ParseError  \<comment> \<open>\<^verbatim>\<open>JSON.parse(data)\<close> throws, or reading the parsed value does\<close>
  | Delta "string option"  \<comment> \<open>\<^verbatim>\<open>parsed.choices?.[0]?.delta?.content\<close>\<close>

fun split_nl :: "string \<Rightarrow> string list" where
  \<comment> \<open>\<^verbatim>\<open>s.split('\n')\<close>: never empty\<close>
  "split_nl [] = [[]]"
| "split_nl (c # cs) =
     (if c = CHR 0x0A then [] # split_nl cs
      else (case split_nl cs of [] \<Rightarrow> [[c]] | l # ls \<Rightarrow> (c # l) # ls))"

fun process_lines :: "(string \<Rightarrow> delta_result) \<Rightarrow> string list \<Rightarrow> StreamChunk list \<times> bool" where
  \<comment> \<open>the \<^verbatim>\<open>for\<close> loop over the complete lines of one read: the chunks it yields, and
      whether it met \<^verbatim>\<open>[DONE]\<close> and returned from the generator. The platform's
      \<^verbatim>\<open>JSON.parse\<close> and the reading of the delta are the parameter \<open>parse\<close>.\<close>
  "process_lines parse [] = ([], False)"
| "process_lines parse (line # lines) =
     (if startsWith line ''data: '' then
        (if trim (drop 6 line) = ''[DONE]'' then ([done_chunk], True)
         else
           (case parse (trim (drop 6 line)) of
              ParseError \<Rightarrow> process_lines parse lines
            | Delta None \<Rightarrow> process_lines parse lines
            | Delta (Some delta) \<Rightarrow>
                if delta = [] then process_lines parse lines
                else
                  (case process_lines parse lines of
                     (cs, d) \<Rightarrow> (\<lparr>chunk_text = delta, isComplete = False\<rparr> # cs, d))))
      else process_lines parse lines)"

text \<open>
  The body of an upstream response is read until it ends: the texts the reader and the
  decoder give, one for each read that delivers bytes, and then what the next
  \<^verbatim>\<open>reader.read()\<close> does. It resolves with \<^verbatim>\<open>done\<close>, or rejects (the connection broke), or
  never settles. The \<^verbatim>\<open>await reader.read()\<close> stands in no \<^verbatim>\<open>try\<close>, so a rejection ends
  the generator with that error, after the chunks it has yielded.
\<close>

datatype body_end =
    Done  \<comment> \<open>\<^verbatim>\<open>{done: true}\<close>\<close>
  | ReadRejected error
  | Stalled

datatype completion =
    Returned  \<comment> \<open>the generator is done\<close>
  | Threw error  \<comment> \<open>the generator threw\<close>
  | Pending  \<comment> \<open>the generator waits for a read that never settles\<close>

fun end_of_body :: "body_end \<Rightarrow> StreamChunk list \<times> completion" where
  \<comment> \<open>the read after the last text: \<^verbatim>\<open>done\<close> leaves the loop for the final \<^verbatim>\<open>yield\<close>\<close>
  "end_of_body Done = ([done_chunk], Returned)"
| "end_of_body (ReadRejected e) = ([], Threw e)"
| "end_of_body Stalled = ([], Pending)"

fun read_loop ::
  "(string \<Rightarrow> delta_result) \<Rightarrow> string \<Rightarrow> string list \<Rightarrow> body_end
     \<Rightarrow> StreamChunk list \<times> completion" where
  \<comment> \<open>the \<^verbatim>\<open>while (true)\<close> loop over the reads of the body, from the buffer and the
      decoded texts still to come, and the final \<^verbatim>\<open>yield\<close> after it: the chunks yielded,
      and how the generator ends\<close>
  "read_loop parse buffer [] e = end_of_body e"
| "read_loop parse buffer (v # vs) e =
     (case process_lines parse (butlast (split_nl (buffer @ v))) of
        (cs, True) \<Rightarrow> (cs, Returned)
      | (cs, False) \<Rightarrow>
          (case read_loop parse (last (split_nl (buffer @ v))) vs e of
             (cs', c) \<Rightarrow> (cs @ cs', c)))"

record UpstreamResponse =
  up_ok :: bool
  up_status :: nat
  up_statusText :: string
  up_text :: "error + string"  \<comment> \<open>\<^verbatim>\<open>response.text()\<close>\<close>
  up_body :: "(string list \<times> body_end) option"  \<comment> \<open>\<^const>\<open>None\<close>: no body\<close>

datatype upstream = Unreachable error | Answered UpstreamResponse

definition DeepseekProvider_streamChat ::
  "string \<Rightarrow> (string \<Rightarrow> delta_result) \<Rightarrow> (TextMessage ChatCompletionsBody \<Rightarrow> upstream)
     \<Rightarrow> AIProviderConfig \<Rightarrow> StreamChunk list \<times> completion" where
  "DeepseekProvider_streamChat apiKey parse fetch_llm config =
     (if apiKey = [] then
        ([], Threw (Error ''Deepseek API key is not configured. Please set DEEPSEEK_API_KEY environment variable.''))
      else
        (case fetch_llm (DeepseekProvider_request True config) of
           Unreachable e \<Rightarrow> ([], Threw e)
         | Answered response \<Rightarrow>
             if \<not> up_ok response
             then ([], Threw (Error (''Deepseek API error: '' @ up_statusText response)))
             else
               (case up_body response of
                  None \<Rightarrow> ([], Threw (Error ''No response body''))
                | Some (vs, e) \<Rightarrow> read_loop parse [] vs e)))"

definition GPT5Provider_streamChat ::
  "string \<Rightarrow> (string \<Rightarrow> delta_result) \<Rightarrow> (ChatMessage ChatCompletionsBody \<Rightarrow> upstream)
     \<Rightarrow> AIProviderConfig \<Rightarrow> StreamChunk list \<times> completion" where
  "GPT5Provider_streamChat apiKey parse fetch_llm config =
     (if apiKey = [] then
        ([], Threw (Error ''OpenAI API key is not configured. Please set OPENAI_API_KEY environment variable.''))
      else
        (case fetch_llm (GPT5Provider_request True config) of
           Unreachable e \<Rightarrow> ([], Threw e)
         | Answered response \<Rightarrow>
             if \<not> up_ok response then
               (case up_text response of
                  Inl e \<Rightarrow> ([], Threw e)
                | Inr errorBody \<Rightarrow>
                    ([], Threw (Error (''OpenAI API error ('' @ string_of_nat (up_status response) @
                                       ''): '' @ errorBody))))
             else
               (case up_body response of
                  None \<Rightarrow> ([], Threw (Error ''No response body''))
                | Some (vs, e) \<Rightarrow> read_loop parse [] vs e)))"

definition done_event :: "string \<Rightarrow> bool" where
  \<comment> \<open>the line is the event \<^verbatim>\<open>data: [DONE]\<close>\<close>
  "done_event line = (startsWith line ''data: '' \<and> trim (drop 6 line) = ''[DONE]'')"

definition malformed_event :: "(string \<Rightarrow> delta_result) \<Rightarrow> string \<Rightarrow> bool" where
  \<comment> \<open>the line is an event whose payload does not parse\<close>
  "malformed_event parse line =
     (startsWith line ''data: '' \<and> trim (drop 6 line) \<noteq> ''[DONE]''
      \<and> parse (trim (drop 6 line)) = ParseError)"

definition stream_lines :: "string list \<Rightarrow> string list" where
  \<comment> \<open>the complete lines of the text an upstream body delivers, whatever the reads are\<close>
  "stream_lines vs = butlast (split_nl (concat vs))"

subsection \<open>An upstream body\<close>

definition hello_payload :: string where
  \<comment> \<open>the JSON text of one delta with the content \<^verbatim>\<open>Hello\<close>\<close>
  "hello_payload =
     ''{'' @ [CHR 0x22] @ ''choices'' @ [CHR 0x22] @ '':[{'' @ [CHR 0x22] @ ''delta'' @ [CHR 0x22] @
     '':{'' @ [CHR 0x22] @ ''content'' @ [CHR 0x22] @ '':'' @ [CHR 0x22] @ ''Hello'' @ [CHR 0x22] @
     ''}}]}''"

definition hello_parse :: "string \<Rightarrow> delta_result" where
  \<comment> \<open>a parser that knows \<^const>\<open>hello_payload\<close> and rejects every other text\<close>
  "hello_parse d = (if d = hello_payload then Delta (Some ''Hello'') else ParseError)"

definition hello_reads :: "string list" where
  \<comment> \<open>four reads: a delta, a malformed event and the start of the next line, the rest of
      \<^verbatim>\<open>data: [DONE]\<close>, and an event after it\<close>
  "hello_reads =
     [''data: '' @ hello_payload @ [CHR 0x0A],
      ''data: {bad'' @ [CHR 0x0A] @ ''da'',
      ''ta: [DONE]'' @ [CHR 0x0D, CHR 0x0A],
      ''data: '' @ hello_payload @ [CHR 0x0A]]"

definition hello_upstream :: "'b \<Rightarrow> upstream" where
  \<comment> \<open>the body is delivered to its end\<close>
  "hello_upstream request =
     Answered \<lparr>up_ok = True, up_status = 200, up_statusText = ''OK'', up_text = Inr [],
               up_body = Some (hello_reads, Done)\<rparr>"

definition cut_upstream :: "'b \<Rightarrow> upstream" where
  \<comment> \<open>the connection breaks after the first read\<close>
  "cut_upstream request =
     Answered \<lparr>up_ok = True, up_status = 200, up_statusText = ''OK'', up_text = Inr [],
               up_body = Some ([hd hello_reads], ReadRejected (Error ''terminated''))\<rparr>"

definition hello_config :: AIProviderConfig where
  "hello_config =
     \<lparr>c_model = ''deepseek'', messages = [\<lparr>role = User, content = Plain ''hi''\<rparr>],
      temperature = Some 1, maxTokens = Some 256, systemPrompt = None\<rparr>"

section \<open>The chat route\<close>

subsection \<open>Attachments\<close>

definition MAX_ATTACHMENT_BYTES :: number where
  "MAX_ATTACHMENT_BYTES = 5 * 1024 * 1024"

definition MAX_ATTACHMENTS :: nat where
  "MAX_ATTACHMENTS = 4"

definition is_mime_char :: "char \<Rightarrow> bool" where
  \<comment> \<open>the class \<^verbatim>\<open>[\w.+-]\<close>\<close>
  "is_mime_char c = (is_word c \<or> c \<in> set ''.+-'')"

definition is_base64_token :: "string \<Rightarrow> bool" where
  \<comment> \<open>the class \<^verbatim>\<open>[A-Za-z0-9+/=\s]\<close>, on a token\<close>
  "is_base64_token t =
     (is_space t \<or>
      (case t of
         [c] \<Rightarrow> c \<in> set ''ABCDEFGHIJKLMNOPQRSTUVWXYZabcdefghijklmnopqrstuvwxyz0123456789+/=''
       | _ \<Rightarrow> False))"

definition strip_prefix_ci :: "string \<Rightarrow> string \<Rightarrow> string option" where
  \<comment> \<open>\<^const>\<open>strip_prefix\<close> of a lower-case prefix without regard to case, as the flag
      \<^verbatim>\<open>i\<close> compares\<close>
  "strip_prefix_ci p s =
     (if map lower_char (take (length p) s) = p then Some (drop (length p) s) else None)"

definition isValidDataUrl :: "string \<Rightarrow> bool" where
  \<comment> \<open>\<^verbatim>\<open>/^data:[\w.+-]+\/[\w.+-]+;base64,[A-Za-z0-9+/=\s]+$/i.test(value)\<close>: each run of
      the first class is as long as it can be, since the character after it is not in
      the class\<close>
  "isValidDataUrl v =
     (case strip_prefix_ci ''data:'' v of
        None \<Rightarrow> False
      | Some r \<Rightarrow>
          takeWhile is_mime_char r \<noteq> [] \<and>
          (case strip_prefix ''/'' (dropWhile is_mime_char r) of
             None \<Rightarrow> False
           | Some r' \<Rightarrow>
               takeWhile is_mime_char r' \<noteq> [] \<and>
               (case strip_prefix_ci '';base64,'' (dropWhile is_mime_char r') of
                  None \<Rightarrow> False
                | Some d \<Rightarrow> d \<noteq> [] \<and> list_all is_base64_token (tokens d))))"

record NormalizedAttachment =
  fileName :: string
  n_mimeType :: string
  n_size :: number
  n_dataUrl :: string

fun normalize_entries ::
  "AttachmentPayload option list \<Rightarrow> NormalizedAttachment list \<Rightarrow> NormalizedAttachment list" where
  \<comment> \<open>the \<^verbatim>\<open>for\<close> loop of \<^verbatim>\<open>normalizeAttachments\<close>, from the entries still to visit and
      the array \<^verbatim>\<open>normalized\<close>\<close>
  "normalize_entries [] normalized = normalized"
| "normalize_entries (None # es) normalized = normalize_entries es normalized"
| "normalize_entries (Some entry # es) normalized =
     (let nm = (case a_name entry of None \<Rightarrow> [] | Some n \<Rightarrow> trim n);
          ty = (case a_type entry of None \<Rightarrow> ''application/octet-stream'' | Some t \<Rightarrow> t);
          url = (case a_dataUrl entry of None \<Rightarrow> [] | Some u \<Rightarrow> u)
      in
        (case a_size entry of
           None \<Rightarrow> normalize_entries es normalized
         | Some sz \<Rightarrow>
             if nm = [] \<or> sz \<le> 0 \<or> sz > MAX_ATTACHMENT_BYTES then normalize_entries es normalized
             else if url = [] \<or> \<not> isValidDataUrl url then normalize_entries es normalized
             else if length normalized + 1 \<ge> MAX_ATTACHMENTS
               then normalized @
                      [\<lparr>fileName = nm,
                        n_mimeType = (if ty = [] then ''application/octet-stream'' else ty),
                        n_size = sz, n_dataUrl = url\<rparr>]
             else normalize_entries es
                    (normalized @
                      [\<lparr>fileName = nm,
                        n_mimeType = (if ty = [] then ''application/octet-stream'' else ty),
                        n_size = sz, n_dataUrl = url\<rparr>])))"

definition normalizeAttachments ::
  "AttachmentPayload option list option \<Rightarrow> NormalizedAttachment list" where
  "normalizeAttachments input = (case input of None \<Rightarrow> [] | Some es \<Rightarrow> normalize_entries es [])"

subsection \<open>The user's message\<close>

fun keep_from_last_line_end :: "string list \<Rightarrow> string list" where
  \<comment> \<open>of a run of white space that other text follows, what \<^verbatim>\<open>/\s+$/gm\<close> leaves: the run
      from its last line terminator on, or all of it when it has none\<close>
  "keep_from_last_line_end [] = []"
| "keep_from_last_line_end (t # ts) =
     (if list_ex is_line_end ts then keep_from_last_line_end ts else t # ts)"

function strip_line_ends :: "string list \<Rightarrow> string list" where
  \<comment> \<open>\<^verbatim>\<open>.replace(/\s+$/gm, '')\<close> on tokens: a run of white space at the end of the text is
      removed, a run inside it is removed up to its last line terminator\<close>
  "strip_line_ends [] = []"
| "strip_line_ends (t # ts) =
     (if \<not> is_space t then t # strip_line_ends ts
      else if dropWhile is_space ts = [] then []
      else keep_from_last_line_end (t # takeWhile is_space ts) @
           strip_line_ends (dropWhile is_space ts))"
  by pat_completeness auto
termination
  by (relation "measure length") (auto simp add: less_Suc_eq_le length_dropWhile_le)

declare strip_line_ends.simps [simp del]

definition sanitizeUserMessage :: "string \<Rightarrow> string" where
  \<comment> \<open>\<^verbatim>\<open>input.replace(/\r/g, '').replace(/\s+$/gm, '').trim()\<close>\<close>
  "sanitizeUserMessage input =
     trim (concat (strip_line_ends (tokens (filter (\<lambda>c. c \<noteq> CHR 0x0D) input))))"

subsection \<open>The handler\<close>

text \<open>
  The persistence layer and the provider are outside: a run of the handler sees them through
  what each call returns or throws.
\<close>

record Collaborators =
  getOrCreateUser :: "error option"  \<comment> \<open>\<^const>\<open>None\<close>: the call returns\<close>
  loadChatContext :: "error option"
  getChatMessageCount :: "error + nat"
  aiProvider_chat :: "error + string"  \<comment> \<open>the content of the reply\<close>
  createChat :: "error option"
  addUserMessage :: "error option"
  addAssistantMessage :: "error option"

definition json_error :: "nat \<Rightarrow> string \<Rightarrow> Response" where
  "json_error st msg =
     \<lparr>status = st, statusText = [], headers = [''content-type'' \<mapsto> ''application/json''],
      body = JsonError msg None\<rparr>"

definition missing_content :: Response where
  "missing_content =
     json_error 400 ''Missing content. Provide a message or at least one attachment.''"

definition internal_error :: "error \<Rightarrow> Response" where
  \<comment> \<open>the response of the handler's \<^verbatim>\<open>catch\<close> block\<close>
  "internal_error e =
     \<lparr>status = 500, statusText = [], headers = [''content-type'' \<mapsto> ''application/json''],
      body = JsonError ''Internal server error'' (Some (case e of Error msg \<Rightarrow> msg))\<rparr>"

definition validModels :: "string list" where
  "validModels = [''deepseek'', ''gpt-5'', ''claude-sonnet-4-5'']"

definition invalid_model :: Response where
  "invalid_model = json_error 400 (''Invalid model. Available: '' @ join '', '' validModels)"

definition DEFAULT_MODEL :: string where
  "DEFAULT_MODEL = ''deepseek''"

definition chat_limit_reached :: string where
  \<comment> \<open>the message for a chat of 80 messages, a sentence in Russian, as UTF-8\<close>
  "chat_limit_reached =
     [CHR 0xD0, CHR 0xAD, CHR 0xD1, CHR 0x82, CHR 0xD0, CHR 0xBE, CHR 0xD1, CHR 0x82, CHR 0x20,
      CHR 0xD1, CHR 0x87, CHR 0xD0, CHR 0xB0, CHR 0xD1, CHR 0x82, CHR 0x20, CHR 0xD0, CHR 0xB4,
      CHR 0xD0, CHR 0xBE, CHR 0xD1, CHR 0x81, CHR 0xD1, CHR 0x82, CHR 0xD0, CHR 0xB8, CHR 0xD0,
      CHR 0xB3, CHR 0x20, CHR 0xD0, CHR 0xBB, CHR 0xD0, CHR 0xB8, CHR 0xD0, CHR 0xBC, CHR 0xD0,
      CHR 0xB8, CHR 0xD1, CHR 0x82, CHR 0xD0, CHR 0xB0, CHR 0x20, CHR 0xD0, CHR 0xB2, CHR 0x20,
      CHR 0x38, CHR 0x30, CHR 0x20, CHR 0xD1, CHR 0x81, CHR 0xD0, CHR 0xBE, CHR 0xD0, CHR 0xBE,
      CHR 0xD0, CHR 0xB1, CHR 0xD1, CHR 0x89, CHR 0xD0, CHR 0xB5, CHR 0xD0, CHR 0xBD, CHR 0xD0,
      CHR 0xB8, CHR 0xD0, CHR 0xB9, CHR 0x2E, CHR 0x20, CHR 0xD0, CHR 0x9F, CHR 0xD0, CHR 0xBE,
      CHR 0xD0, CHR 0xB6, CHR 0xD0, CHR 0xB0, CHR 0xD0, CHR 0xBB, CHR 0xD1, CHR 0x83, CHR 0xD0,
      CHR 0xB9, CHR 0xD1, CHR 0x81, CHR 0xD1, CHR 0x82, CHR 0xD0, CHR 0xB0, CHR 0x2C, CHR 0x20,
      CHR 0xD1, CHR 0x81, CHR 0xD0, CHR 0xBE, CHR 0xD0, CHR 0xB7, CHR 0xD0, CHR 0xB4, CHR 0xD0,
      CHR 0xB0, CHR 0xD0, CHR 0xB9, CHR 0xD1, CHR 0x82, CHR 0xD0, CHR 0xB5, CHR 0x20, CHR 0xD0,
      CHR 0xBD, CHR 0xD0, CHR 0xBE, CHR 0xD0, CHR 0xB2, CHR 0xD1, CHR 0x8B, CHR 0xD0, CHR 0xB9,
      CHR 0x20, CHR 0xD1, CHR 0x87, CHR 0xD0, CHR 0xB0, CHR 0xD1, CHR 0x82, CHR 0x20, CHR 0xD0,
      CHR 0xB4, CHR 0xD0, CHR 0xBB, CHR 0xD1, CHR 0x8F, CHR 0x20, CHR 0xD0, CHR 0xBF, CHR 0xD1,
      CHR 0x80, CHR 0xD0, CHR 0xBE, CHR 0xD0, CHR 0xB4, CHR 0xD0, CHR 0xBE, CHR 0xD0, CHR 0xBB,
      CHR 0xD0, CHR 0xB6, CHR 0xD0, CHR 0xB5, CHR 0xD0, CHR 0xBD, CHR 0xD0, CHR 0xB8, CHR 0xD1,
      CHR 0x8F, CHR 0x20, CHR 0xD0, CHR 0xBE, CHR 0xD0, CHR 0xB1, CHR 0xD1, CHR 0x89, CHR 0xD0,
      CHR 0xB5, CHR 0xD0, CHR 0xBD, CHR 0xD0, CHR 0xB8, CHR 0xD1, CHR 0x8F, CHR 0x2E]"

definition chat_reply :: "Collaborators \<Rightarrow> ChatRequest \<Rightarrow> string \<Rightarrow> Response" where
  \<comment> \<open>the handler after its checks of the request, for a valid model: the status and the
      error of the response; what the handler stores is left out\<close>
  "chat_reply k b model =
     (case getOrCreateUser k of
        Some e \<Rightarrow> internal_error e
      | None \<Rightarrow>
          if truthy (q_chatId b) \<and> loadChatContext k \<noteq> None then
            json_error 404 ''Chat not found for this wallet.''
          else if truthy (q_chatId b) \<and> isl (getChatMessageCount k) then
            json_error 404 ''Chat not found for this wallet.''
          else if truthy (q_chatId b) \<and> projr (getChatMessageCount k) \<ge> 80 then
            json_error 400 chat_limit_reached
          else
            (case aiProvider_chat k of
               Inl e \<Rightarrow>
                 internal_error
                   (Error (''Failed to call '' @ model @ '': '' @ (case e of Error msg \<Rightarrow> msg)))
             | Inr reply \<Rightarrow>
                 (case (if truthy (q_chatId b) then None else createChat k) of
                    Some e \<Rightarrow> internal_error e
                  | None \<Rightarrow>
                      (case addUserMessage k of
                         Some e \<Rightarrow> internal_error e
                       | None \<Rightarrow>
                           (case addAssistantMessage k of
                              Some e \<Rightarrow> internal_error e
                            | None \<Rightarrow>
                                \<lparr>status = 200, statusText = [],
                                 headers = [''content-type'' \<mapsto> ''application/json''],
                                 body = JsonChat model\<rparr>)))))"

definition handleChatRequest :: "Collaborators \<Rightarrow> Request \<Rightarrow> Response" where
  "handleChatRequest k request =
     (case json request of
        None \<Rightarrow> internal_error (Error ''SyntaxError'')
      | Some b \<Rightarrow>
          (let attachments = normalizeAttachments (q_files b);
               rawMessage = (case q_message b of None \<Rightarrow> [] | Some m \<Rightarrow> m);
               model = (case q_model b of Missing \<Rightarrow> Some DEFAULT_MODEL | Mistyped \<Rightarrow> None
                        | Given m \<Rightarrow> Some m)
           in
             if \<not> truthy (q_walletAddress b) \<or> (rawMessage = [] \<and> attachments = []) then
               missing_content
             else
               (case model of
                  None \<Rightarrow> invalid_model
                | Some m \<Rightarrow>
                    if m \<notin> set validModels then invalid_model
                    else if sanitizeUserMessage rawMessage = [] \<and> attachments = [] then
                      json_error 422 ''Message cannot be empty after sanitization.''
                    else chat_reply k b m)))"

definition POST :: "'p world \<Rightarrow> Collaborators \<Rightarrow> Request \<Rightarrow> Response \<times> event list" where
  \<comment> \<open>the chat endpoint: the handler behind the payment middleware\<close>
  "POST w k =
     withX402Payment w (\<lambda>req ctx. Inr (handleChatRequest k req)) ''deepseek'' False
       (Some ''/api/chat'')"







definition ascii :: "string \<Rightarrow> bool" where
  "ascii s = list_all (\<lambda>c. (of_char c :: nat) < 128) s"


definition settled :: SettlementResult where
  \<comment> \<open>the settlement of the transaction \<^verbatim>\<open>abc123\<close>\<close>
  "settled =
     \<lparr>success = True, transaction = Some ''abc123'', amount = Some ''100000'', s_error = None,
      networkId = None\<rparr>"

definition ok_response :: Response where
  "ok_response =
     \<lparr>status = 200, statusText = ''OK'', headers = [''content-type'' \<mapsto> ''application/json''],
      body = Text ''{}''\<rparr>"

definition error_response :: Response where
  \<comment> \<open>\<^verbatim>\<open>Response.error()\<close>: a network error, of status 0\<close>
  "error_response = \<lparr>status = 0, statusText = [], headers = Map.empty, body = NullBody\<rparr>"

definition copyable :: "Response \<Rightarrow> bool" where
  \<comment> \<open>the constructor accepts the body and the status of the response\<close>
  "copyable r =
     (body r \<noteq> Disturbed \<and> 200 \<le> status r \<and> status r \<le> 599
      \<and> (null_body_status (status r) \<longrightarrow> body r = NullBody))"

section \<open>Properties of the payment gate\<close>

subsection \<open>What the gate calls, and in which order\<close>

lemma verifyPayment_calls:
  "snd (verifyPayment w this h m hv ep) =
     (case payload w h m hv ep of
        None \<Rightarrow> [Verified False]
      | Some sent \<Rightarrow>
          [Post (facilitatorUrl this @ ''/verify''),
           Verified (says_valid (fetch w (facilitatorUrl this @ ''/verify'') sent))])"
  by (simp add: verifyPayment_def payload_def callFacilitator_def says_valid_def
        verification_failed_def Boolean_def
        split: sum.splits option.splits fetch_result.splits json_body.splits)

lemma verifyPayment_valid:
  "isValid (fst (verifyPayment w this h m hv ep)) =
     (case payload w h m hv ep of
        None \<Rightarrow> False
      | Some sent \<Rightarrow> says_valid (fetch w (facilitatorUrl this @ ''/verify'') sent))"
  by (simp add: verifyPayment_def payload_def callFacilitator_def says_valid_def
        verification_failed_def Boolean_def
        split: sum.splits option.splits fetch_result.splits json_body.splits)

lemma settlePayment_calls:
  "snd (settlePayment w this h m hv ep) =
     (case payload w h m hv ep of
        None \<Rightarrow> [Settled False]
      | Some sent \<Rightarrow>
          [Post (facilitatorUrl this @ ''/settle''),
           Settled (says_settled (fetch w (facilitatorUrl this @ ''/settle'') sent))])"
  by (simp add: settlePayment_def payload_def callFacilitator_def says_settled_def
        settlement_failed_def Boolean_def
        split: sum.splits option.splits fetch_result.splits json_body.splits)

lemma settlePayment_success:
  "success (fst (settlePayment w this h m hv ep)) =
     (case payload w h m hv ep of
        None \<Rightarrow> False
      | Some sent \<Rightarrow> says_settled (fetch w (facilitatorUrl this @ ''/settle'') sent))"
  by (simp add: settlePayment_def payload_def callFacilitator_def says_settled_def
        settlement_failed_def Boolean_def
        split: sum.splits option.splits fetch_result.splits json_body.splits)

lemma requirements_price:
  "createChatPaymentRequirements env m hv ep = Inr rq \<Longrightarrow> getModelPrice env m hv = Inr (maxAmountRequired rq)"
  by (auto simp add: createChatPaymentRequirements_def split: sum.splits option.splits)

lemma payload_price:
  "payload w h m hv ep = Some sent \<Longrightarrow> \<exists>p. getModelPrice (process_env w) m hv = Inr p"
  by (auto simp add: payload_def dest: requirements_price split: sum.splits option.splits)

lemma reject402_status:
  "createChatPaymentRequirements env m hv ep = Inr rq \<Longrightarrow>
     \<exists>r. reject402 env m hv ep err = Inr (Rejected r) \<and> status r = 402"
  by (simp add: reject402_def create402Response_def)

lemma reject402_not_granted: "reject402 env m hv ep err \<noteq> Inr (Granted st p)"
  by (simp add: reject402_def split: sum.splits)

lemma handlePaymentFlow_paid:
  assumes "extractPaymentHeader (req_headers req) = Some h" and "h \<noteq> []"
  shows "handlePaymentFlow w this req m hv ep =
     (if \<not> isValid (fst (verifyPayment w this h m hv ep))
      then (reject402 (process_env w) m hv ep
              (Some (''Payment verification failed: '' @
                     interpolate (v_error (fst (verifyPayment w this h m hv ep))))),
            snd (verifyPayment w this h m hv ep))
      else if \<not> success (fst (settlePayment w this h m hv ep))
      then (reject402 (process_env w) m hv ep
              (Some (''Payment settlement failed: '' @
                     interpolate (s_error (fst (settlePayment w this h m hv ep))))),
            snd (verifyPayment w this h m hv ep) @ snd (settlePayment w this h m hv ep))
      else ((case getModelPrice (process_env w) m hv of
               Inl e \<Rightarrow> Inl e
             | Inr price \<Rightarrow> Inr (Granted (fst (settlePayment w this h m hv ep)) price)),
            snd (verifyPayment w this h m hv ep) @ snd (settlePayment w this h m hv ep)))"
  using assms
  by (cases "verifyPayment w this h m hv ep"; cases "settlePayment w this h m hv ep")
     (simp add: handlePaymentFlow_def truthy_def or_default_def split: sum.splits)

lemma handlePaymentFlow_unpaid:
  assumes "\<not> truthy (extractPaymentHeader (req_headers req))"
  shows "handlePaymentFlow w this req m hv ep = (reject402 (process_env w) m hv ep None, [])"
  using assms by (simp add: handlePaymentFlow_def)

lemma flow_trace:
  "gate_trace w handler dm hv ep req =
     (if req_method req = ''OPTIONS'' then []
      else
        (case getX402Config (process_env w) of
           Inl e \<Rightarrow> []
         | Inr this \<Rightarrow>
             (case handlePaymentFlow w this req (request_model dm req) hv (default_endpoint ep) of
                (Inr (Granted st p), tr) \<Rightarrow> tr @ [Handled]
              | (r, tr) \<Rightarrow> tr)))"
  by (simp add: gate_trace_def withX402Payment_def Let_def
        split: prod.splits sum.splits FlowResult.splits)

lemma gate_trace_calls:
  "gate_trace w handler dm hv ep req = gate_calls w dm hv ep req"
proof (cases "proof_of w req")
  case None
  show ?thesis
  proof (cases "req_method req = ''OPTIONS'' \<or> (\<exists>e. getX402Config (process_env w) = Inl e)")
    case True
    then show ?thesis using None
      by (auto simp add: flow_trace gate_calls_def proof_of_def)
  next
    case False
    then obtain this where cfg: "getX402Config (process_env w) = Inr this"
      by (cases "getX402Config (process_env w)") auto
    have "\<not> truthy (extractPaymentHeader (req_headers req))"
      using None False cfg
      by (auto simp add: proof_of_def truthy_def split: option.splits if_splits)
    note flow = handlePaymentFlow_unpaid[OF this, of w "this" "request_model dm req" hv "default_endpoint ep"]
    show ?thesis using None False cfg
      by (simp add: flow_trace gate_calls_def flow reject402_def split: sum.splits)
  qed
next
  case (Some a)
  obtain this h where a: "a = (this, h)" by (cases a)
  have opt: "req_method req \<noteq> ''OPTIONS''" and cfg: "getX402Config (process_env w) = Inr this"
    and h: "extractPaymentHeader (req_headers req) = Some h" "h \<noteq> []"
    using Some a by (auto simp add: proof_of_def split: if_splits sum.splits option.splits)
  define m where "m = request_model dm req"
  define e where "e = default_endpoint ep"
  note flow = handlePaymentFlow_paid[OF h, of w this m hv e]
  show ?thesis
  proof (cases "payload w h m hv e")
    case None
    then show ?thesis
      using Some a opt cfg
      by (simp add: flow_trace gate_calls_def m_def[symmetric] e_def[symmetric] flow
            verifyPayment_valid verifyPayment_calls reject402_def split: sum.splits)
  next
    case sent: (Some sent)
    from payload_price[OF sent] obtain p where p: "getModelPrice (process_env w) m hv = Inr p" ..
    show ?thesis
      using Some a opt cfg sent p
      by (simp add: flow_trace gate_calls_def m_def[symmetric] e_def[symmetric] flow
            verifyPayment_valid verifyPayment_calls settlePayment_success settlePayment_calls
            reject402_def Let_def split: sum.splits)
  qed
qed






lemma empty_config: "getX402Config Map.empty = Inr default_config"
  by (simp add: getX402Config_def default_config_def or_default_def or_else_def truthy_def
        USDC_MINT_ADDRESSES_def Let_def)

lemma empty_requirements:
  "createChatPaymentRequirements Map.empty ''deepseek'' False ''/api/chat'' = Inr deepseek_requirements"
  by (simp add: createChatPaymentRequirements_def empty_config getModelPrice_def
        AI_MODEL_PRICING_get_def AI_MODEL_PRICING_def getPrice_def default_config_def
        deepseek_requirements_def FALLBACK_PRICING_deepseek_def)

lemma constructor_lookup:
  "AI_MODEL_PRICING_get env ''constructor'' = Some (Inherited (Some ''Object''))"
  by (simp add: AI_MODEL_PRICING_get_def AI_MODEL_PRICING_def)

lemma empty_constructor_requirements:
  "createChatPaymentRequirements Map.empty ''constructor'' False ''/api/chat'' =
     Inr constructor_requirements"
  by (simp add: createChatPaymentRequirements_def empty_config getModelPrice_def
        constructor_lookup interpolate_def default_config_def constructor_requirements_def
        deepseek_requirements_def)

lemma paid_header:
  "extractPaymentHeader (req_headers paid_request) = Some ''e30=''"
  "extractPaymentHeader (req_headers (paid_for m)) = Some ''e30=''"
  by (simp_all add: extractPaymentHeader_def Headers_get_def paid_request_def paid_for_def
        lower_char_def)

lemma paid_model:
  "request_model ''deepseek'' paid_request = ''deepseek''"
  "m \<noteq> [] \<Longrightarrow> request_model dm (paid_for m) = m"
  by (simp_all add: request_model_def paid_request_def paid_for_def)

lemma paid_method: "req_method paid_request = ''POST''" "req_method (paid_for m) = ''POST''"
  by (simp_all add: paid_request_def paid_for_def)

lemma worlds:
  "process_env paid_world = Map.empty" "decodePayment paid_world = Some"
  "fetch paid_world u sent = HttpResponse 200 (JsonObject accepting)"
  "process_env refusing_world = Map.empty" "decodePayment refusing_world = Some"
  "fetch refusing_world u sent = HttpResponse 200 (JsonObject refusing)"
  "process_env failing_world = Map.empty" "decodePayment failing_world = Some"
  "fetch failing_world u sent = HttpResponse 503 Unparseable"
  by (simp_all add: paid_world_def refusing_world_def failing_world_def)

lemma answers:
  "says_valid (HttpResponse 200 (JsonObject accepting))"
  "says_settled (HttpResponse 200 (JsonObject accepting))"
  "\<not> says_valid (HttpResponse 200 (JsonObject refusing))"
  "\<not> says_valid (HttpResponse 503 Unparseable)"
  "facilitator_failure (HttpResponse 503 Unparseable)"
  "\<not> facilitator_failure (HttpResponse 200 (JsonObject refusing))"
  by (simp_all add: says_valid_def says_settled_def facilitator_failure_def response_ok_def
        accepting_def refusing_def)

lemma paid_proof:
  "process_env w = Map.empty \<Longrightarrow> proof_of w paid_request = Some (default_config, ''e30='')"
  "process_env w = Map.empty \<Longrightarrow> proof_of w (paid_for m) = Some (default_config, ''e30='')"
  by (simp_all add: proof_of_def paid_method paid_header empty_config)

lemma paid_payload:
  "process_env w = Map.empty \<Longrightarrow> decodePayment w = Some \<Longrightarrow>
     payload w ''e30='' ''deepseek'' False ''/api/chat'' = Some (''e30='', deepseek_requirements)"
  "process_env w = Map.empty \<Longrightarrow> decodePayment w = Some \<Longrightarrow>
     payload w ''e30='' ''constructor'' False ''/api/chat'' = Some (''e30='', constructor_requirements)"
  by (simp_all add: payload_def empty_requirements empty_constructor_requirements)



subsection \<open>Failures of the facilitator\<close>

lemma failure_says:
  "facilitator_failure r \<Longrightarrow> \<not> says_valid r" "facilitator_failure r \<Longrightarrow> \<not> says_settled r"
  by (simp_all add: facilitator_failure_def says_valid_def says_settled_def
        split: fetch_result.splits)

lemma verifyPayment_failure:
  assumes "payload w h m hv ep = Some sent"
      and "facilitator_failure (fetch w (facilitatorUrl this @ ''/verify'') sent)"
  shows "verifyPayment w this h m hv ep =
           (verification_failed, [Post (facilitatorUrl this @ ''/verify''), Verified False])"
  using assms
  by (auto simp add: verifyPayment_def payload_def callFacilitator_def facilitator_failure_def
        verification_failed_def split: sum.splits option.splits fetch_result.splits)

lemma settlePayment_failure:
  assumes "payload w h m hv ep = Some sent"
      and "facilitator_failure (fetch w (facilitatorUrl this @ ''/settle'') sent)"
  shows "settlePayment w this h m hv ep =
           (settlement_failed, [Post (facilitatorUrl this @ ''/settle''), Settled False])"
  using assms
  by (auto simp add: settlePayment_def payload_def callFacilitator_def facilitator_failure_def
        settlement_failed_def split: sum.splits option.splits fetch_result.splits)

lemma payload_reject402:
  "payload w h m hv ep = Some sent \<Longrightarrow>
     \<exists>r. reject402 (process_env w) m hv ep err = Inr (Rejected r) \<and> status r = 402"
  by (auto simp add: payload_def reject402_def create402Response_def
        split: sum.splits option.splits)

lemma unsettled_402:
  assumes offered: "proof_of w req = Some (this, h)"
      and sent: "payload w h (request_model dm req) hv (default_endpoint ep) = Some sent"
      and no: "\<not> says_valid (fetch w (facilitatorUrl this @ ''/verify'') sent)
               \<or> \<not> says_settled (fetch w (facilitatorUrl this @ ''/settle'') sent)"
  shows "status (gate_response w handler dm hv ep req) = 402"
proof -
  have opt: "req_method req \<noteq> ''OPTIONS''" and cfg: "getX402Config (process_env w) = Inr this"
    and h: "extractPaymentHeader (req_headers req) = Some h" "h \<noteq> []"
    using offered by (auto simp add: proof_of_def split: if_splits sum.splits option.splits)
  define m where "m = request_model dm req"
  define e where "e = default_endpoint ep"
  note flow = handlePaymentFlow_paid[OF h, of w this m hv e]
  obtain r1 where r1: "reject402 (process_env w) m hv e
      (Some (''Payment verification failed: '' @
             interpolate (v_error (fst (verifyPayment w this h m hv e))))) = Inr (Rejected r1)"
      "status r1 = 402"
    using payload_reject402[OF sent] unfolding m_def e_def by blast
  obtain r2 where r2: "reject402 (process_env w) m hv e
      (Some (''Payment settlement failed: '' @
             interpolate (s_error (fst (settlePayment w this h m hv e))))) = Inr (Rejected r2)"
      "status r2 = 402"
    using payload_reject402[OF sent] unfolding m_def e_def by blast
  show ?thesis
    using opt cfg sent no r1 r2
    by (auto simp add: gate_response_def withX402Payment_def m_def[symmetric] e_def[symmetric]
          flow verifyPayment_valid settlePayment_success)
qed

lemma posts_of_gate_calls:
  assumes "Post u \<in> set (gate_calls w dm hv ep req)"
  shows "\<exists>this h sent. proof_of w req = Some (this, h)
           \<and> payload w h (request_model dm req) hv (default_endpoint ep) = Some sent
           \<and> (u = facilitatorUrl this @ ''/verify''
              \<or> u = facilitatorUrl this @ ''/settle''
                \<and> says_valid (fetch w (facilitatorUrl this @ ''/verify'') sent))"
proof (cases "proof_of w req")
  case None
  then show ?thesis using assms by (simp add: gate_calls_def)
next
  case (Some a)
  obtain this h where a: "a = (this, h)" by (cases a)
  show ?thesis
  proof (cases "payload w h (request_model dm req) hv (default_endpoint ep)")
    case None
    then show ?thesis using assms Some a by (simp add: gate_calls_def)
  next
    case sent: (Some sent)
    have "u = facilitatorUrl this @ ''/verify''
              \<or> u = facilitatorUrl this @ ''/settle''
                \<and> says_valid (fetch w (facilitatorUrl this @ ''/verify'') sent)"
      using assms Some a sent by (auto simp add: gate_calls_def Let_def split: if_splits)
    then show ?thesis using Some a sent by blast
  qed
qed

text \<open>
  Claim C2. Whenever the facilitator is called and the call fails (the transport fails, or
  the response is not 2xx), \<^const>\<open>verifyPayment\<close> returns the failed verification and
  \<^const>\<open>settlePayment\<close> the failed settlement, as values; the response of the middleware
  to a request whose verification or settlement fails so has status 402, not 5xx, and the
  handler is not run. These are all the calls: each call of the facilitator that the
  middleware makes sends the payload of the request's payment header, to \<^verbatim>\<open>/verify\<close>, or
  to \<^verbatim>\<open>/settle\<close> after a verification that the facilitator accepted.
\<close>

theorem facilitator_failure_folded:
  fixes w :: "'p world" and handler defaultModel hasVision endpoint req
  defines "m \<equiv> request_model defaultModel req" and "e \<equiv> default_endpoint endpoint"
  shows "(\<forall>this h model ep sent.
            payload w h model hasVision ep = Some sent
            \<and> facilitator_failure (fetch w (facilitatorUrl this @ ''/verify'') sent) \<longrightarrow>
            verifyPayment w this h model hasVision ep =
              (verification_failed, [Post (facilitatorUrl this @ ''/verify''), Verified False]))
       \<and> (\<forall>this h model ep sent.
            payload w h model hasVision ep = Some sent
            \<and> facilitator_failure (fetch w (facilitatorUrl this @ ''/settle'') sent) \<longrightarrow>
            settlePayment w this h model hasVision ep =
              (settlement_failed, [Post (facilitatorUrl this @ ''/settle''), Settled False]))
       \<and> (\<forall>this h sent.
            proof_of w req = Some (this, h) \<and> payload w h m hasVision e = Some sent
            \<and> (facilitator_failure (fetch w (facilitatorUrl this @ ''/verify'') sent)
               \<or> facilitator_failure (fetch w (facilitatorUrl this @ ''/settle'') sent)) \<longrightarrow>
            status (gate_response w handler defaultModel hasVision endpoint req) = 402
            \<and> Handled \<notin> set (gate_trace w handler defaultModel hasVision endpoint req))
       \<and> (\<forall>u. Post u \<in> set (gate_trace w handler defaultModel hasVision endpoint req) \<longrightarrow>
            (\<exists>this h sent. proof_of w req = Some (this, h)
               \<and> payload w h m hasVision e = Some sent
               \<and> (u = facilitatorUrl this @ ''/verify''
                  \<or> u = facilitatorUrl this @ ''/settle''
                    \<and> says_valid (fetch w (facilitatorUrl this @ ''/verify'') sent))))"
proof (intro conjI allI impI)
  fix this h sent
  assume a: "proof_of w req = Some (this, h) \<and> payload w h m hasVision e = Some sent
            \<and> (facilitator_failure (fetch w (facilitatorUrl this @ ''/verify'') sent)
               \<or> facilitator_failure (fetch w (facilitatorUrl this @ ''/settle'') sent))"
  then have no: "\<not> says_valid (fetch w (facilitatorUrl this @ ''/verify'') sent)
               \<or> \<not> says_settled (fetch w (facilitatorUrl this @ ''/settle'') sent)"
    using failure_says by blast
  show "status (gate_response w handler defaultModel hasVision endpoint req) = 402"
    using a no unsettled_402[of w req this h defaultModel hasVision endpoint sent handler]
    unfolding m_def e_def by blast
  show "Handled \<notin> set (gate_trace w handler defaultModel hasVision endpoint req)"
    using a no unfolding m_def e_def
    by (auto simp add: gate_trace_calls gate_calls_def Let_def)
next
  fix u
  assume "Post u \<in> set (gate_trace w handler defaultModel hasVision endpoint req)"
  then show "\<exists>this h sent. proof_of w req = Some (this, h)
               \<and> payload w h m hasVision e = Some sent
               \<and> (u = facilitatorUrl this @ ''/verify''
                  \<or> u = facilitatorUrl this @ ''/settle''
                    \<and> says_valid (fetch w (facilitatorUrl this @ ''/verify'') sent))"
    unfolding m_def e_def gate_trace_calls by (rule posts_of_gate_calls)
qed (simp_all add: verifyPayment_failure settlePayment_failure)

theorem facilitator_failure_folded_witness:
  "payload failing_world ''e30='' ''deepseek'' False ''/api/chat'' =
     Some (''e30='', deepseek_requirements)
   \<and> facilitator_failure
       (fetch failing_world (facilitatorUrl default_config @ ''/verify'')
          (''e30='', deepseek_requirements))
   \<and> verifyPayment failing_world default_config ''e30='' ''deepseek'' False ''/api/chat'' =
       (verification_failed, [Post ''https://facilitator.payai.network/verify'', Verified False])
   \<and> settlePayment failing_world default_config ''e30='' ''deepseek'' False ''/api/chat'' =
       (settlement_failed, [Post ''https://facilitator.payai.network/settle'', Settled False])
   \<and> proof_of failing_world paid_request = Some (default_config, ''e30='')
   \<and> status (gate_response failing_world ok_handler ''deepseek'' False None paid_request) = 402
   \<and> payload failing_world ''e30='' ''constructor'' False ''/api/chat'' =
       Some (''e30='', constructor_requirements)
   \<and> status (gate_response failing_world ok_handler ''deepseek'' False None
               (paid_for ''constructor'')) = 402"
proof -
  note sent = paid_payload[OF worlds(7) worlds(8)]
  note offered = paid_proof[OF worlds(7)]
  have f: "facilitator_failure (fetch failing_world u s)" for u s
    by (simp add: worlds answers)
  note d = facilitator_failure_folded[where w = failing_world and handler = ok_handler
             and defaultModel = "''deepseek''" and hasVision = False and endpoint = None
             and req = paid_request]
  note c = facilitator_failure_folded[where w = failing_world and handler = ok_handler
             and defaultModel = "''deepseek''" and hasVision = False and endpoint = None
             and req = "paid_for ''constructor''"]
  have v: "verifyPayment failing_world default_config ''e30='' ''deepseek'' False ''/api/chat'' =
       (verification_failed, [Post ''https://facilitator.payai.network/verify'', Verified False])"
    using d[THEN conjunct1, rule_format, OF conjI[OF sent(1) f], of default_config]
    by (simp add: default_config_def)
  have s: "settlePayment failing_world default_config ''e30='' ''deepseek'' False ''/api/chat'' =
       (settlement_failed, [Post ''https://facilitator.payai.network/settle'', Settled False])"
    using d[THEN conjunct2, THEN conjunct1, rule_format, OF conjI[OF sent(1) f], of default_config]
    by (simp add: default_config_def)
  have g1: "status (gate_response failing_world ok_handler ''deepseek'' False None paid_request) = 402"
    using d[THEN conjunct2, THEN conjunct2, THEN conjunct1, rule_format,
            of default_config "''e30=''" "(''e30='', deepseek_requirements)"]
          offered(1) sent(1) f
    by (simp add: paid_model default_endpoint_def)
  have g2: "status (gate_response failing_world ok_handler ''deepseek'' False None
               (paid_for ''constructor'')) = 402"
    using c[THEN conjunct2, THEN conjunct2, THEN conjunct1, rule_format,
            of default_config "''e30=''" "(''e30='', constructor_requirements)"]
          offered(2) sent(2) f
    by (simp add: paid_model default_endpoint_def)
  show ?thesis using v s g1 g2 sent offered(1) f by simp
qed

subsection \<open>Requests without a payment header\<close>

lemma supported_price:
  "m \<in> set supported_models \<Longrightarrow> \<exists>mc. AI_MODEL_PRICING_get env m = Some (Own mc)"
  by (auto simp add: supported_models_def AI_MODEL_PRICING_get_def AI_MODEL_PRICING_def)

lemma supported_requirements:
  assumes "getX402Config env = Inr this" and "m \<in> set supported_models"
  shows "\<exists>rq. createChatPaymentRequirements env m hv ep = Inr rq"
proof -
  from supported_price[OF assms(2)] obtain mc where "AI_MODEL_PRICING_get env m = Some (Own mc)" ..
  then show ?thesis using assms(1)
    by (simp add: createChatPaymentRequirements_def getModelPrice_def)
qed

lemma deepseek_price:
  "createChatPaymentRequirements env ''deepseek'' hv ep = Inr rq \<Longrightarrow>
     maxAmountRequired rq =
       Some (if hv then getPrice env ''PRICE_DEEPSEEK_VISION'' ''30000''
             else getPrice env ''PRICE_DEEPSEEK'' ''30000'')"
  by (auto simp add: createChatPaymentRequirements_def getModelPrice_def AI_MODEL_PRICING_get_def
        AI_MODEL_PRICING_def FALLBACK_PRICING_deepseek_def split: sum.splits)

text \<open>
  Claim C3, as amended. A request other than a preflight that carries no payment header (or
  an empty one), for one of the three supported models and in an environment where the
  configuration resolves, is answered with status 402 and a body whose \<^verbatim>\<open>accepts\<close>
  holds exactly the one set of requirements, and the facilitator is not called. For
  \<^verbatim>\<open>deepseek\<close> the amount is \<^verbatim>\<open>30000\<close> when the price variable of the
  requested kind (\<^verbatim>\<open>PRICE_DEEPSEEK\<close>, or \<^verbatim>\<open>PRICE_DEEPSEEK_VISION\<close> with vision) is
  unset.
\<close>

theorem no_proof_is_402:
  fixes w :: "'p world"
  assumes cfg: "getX402Config (process_env w) = Inr this"
      and m: "request_model defaultModel req \<in> set supported_models"
      and h: "\<not> truthy (extractPaymentHeader (req_headers req))"
      and opt: "req_method req \<noteq> ''OPTIONS''"
  shows "\<exists>rq. createChatPaymentRequirements (process_env w) (request_model defaultModel req)
                 hasVision (default_endpoint endpoint) = Inr rq
            \<and> status (gate_response w handler defaultModel hasVision endpoint req) = 402
            \<and> body (gate_response w handler defaultModel hasVision endpoint req) =
                 JsonPaymentRequired 1 ''Payment required'' [rq]
            \<and> gate_trace w handler defaultModel hasVision endpoint req = []
            \<and> (request_model defaultModel req = ''deepseek'' \<and> \<not> hasVision
                  \<and> process_env w ''PRICE_DEEPSEEK'' = None \<longrightarrow> maxAmountRequired rq = Some ''30000'')
            \<and> (request_model defaultModel req = ''deepseek'' \<and> hasVision
                  \<and> process_env w ''PRICE_DEEPSEEK_VISION'' = None \<longrightarrow> maxAmountRequired rq = Some ''30000'')"
proof -
  from supported_requirements[OF cfg m] obtain rq where
    rq: "createChatPaymentRequirements (process_env w) (request_model defaultModel req)
           hasVision (default_endpoint endpoint) = Inr rq" ..
  have flow: "handlePaymentFlow w this req (request_model defaultModel req) hasVision
                (default_endpoint endpoint) =
              (Inr (Rejected \<lparr>status = 402, statusText = [],
                 headers =
                   [''content-type'' \<mapsto> ''application/json'',
                    ''access-control-allow-origin'' \<mapsto> ''*'',
                    ''access-control-allow-methods'' \<mapsto> ''GET, POST, OPTIONS'',
                    ''access-control-allow-headers'' \<mapsto> ''Content-Type, X-PAYMENT'',
                    ''access-control-expose-headers'' \<mapsto> ''X-PAYMENT-RESPONSE''],
                 body = JsonPaymentRequired 1 ''Payment required'' [rq]\<rparr>), [])"
    using h rq by (simp add: handlePaymentFlow_def reject402_def create402Response_def or_default_def)
  have resp: "status (gate_response w handler defaultModel hasVision endpoint req) = 402"
             "body (gate_response w handler defaultModel hasVision endpoint req) =
                 JsonPaymentRequired 1 ''Payment required'' [rq]"
             "gate_trace w handler defaultModel hasVision endpoint req = []"
    using cfg opt flow by (simp_all add: gate_response_def gate_trace_def withX402Payment_def)
  have price: "request_model defaultModel req = ''deepseek'' \<Longrightarrow>
     maxAmountRequired rq =
       Some (if hasVision then getPrice (process_env w) ''PRICE_DEEPSEEK_VISION'' ''30000''
             else getPrice (process_env w) ''PRICE_DEEPSEEK'' ''30000'')"
    using rq deepseek_price by metis
  show ?thesis
    using rq resp price by (auto simp add: getPrice_def)
qed

lemma unpaid_header: "\<not> truthy (extractPaymentHeader (req_headers (unpaid_request m)))"
  by (simp add: extractPaymentHeader_def Headers_get_def unpaid_request_def truthy_def)

lemma unpaid_model: "m \<noteq> [] \<Longrightarrow> request_model dm (unpaid_request m) = m"
  by (simp add: request_model_def unpaid_request_def)

theorem no_proof_is_402_witness:
  "\<exists>rq. status (gate_response paid_world ok_handler ''deepseek'' False None (unpaid_request ''deepseek'')) = 402
      \<and> body (gate_response paid_world ok_handler ''deepseek'' False None (unpaid_request ''deepseek''))
          = JsonPaymentRequired 1 ''Payment required'' [rq]
      \<and> maxAmountRequired rq = Some ''30000''"
proof -
  have cfg: "getX402Config (process_env paid_world) = Inr default_config"
    by (simp add: paid_world_def empty_config)
  have m: "request_model ''deepseek'' (unpaid_request ''deepseek'') \<in> set supported_models"
    by (simp add: unpaid_model supported_models_def)
  have opt: "req_method (unpaid_request ''deepseek'') \<noteq> ''OPTIONS''"
    by (simp add: unpaid_request_def)
  have e: "process_env paid_world ''PRICE_DEEPSEEK'' = None"
    by (simp add: paid_world_def)
  show ?thesis
    using no_proof_is_402[OF cfg m unpaid_header opt, of False None ok_handler] e
    by (auto simp add: unpaid_model)
qed

lemma unpaid_method: "req_method (unpaid_request m) = ''POST''"
  by (simp add: unpaid_request_def)

lemma unknown_model_500:
  "status (gate_response paid_world ok_handler ''deepseek'' False None (unpaid_request ''foo'')) = 500"
  by (simp add: gate_response_def withX402Payment_def paid_world_def unpaid_model unpaid_header
        unpaid_method handlePaymentFlow_def reject402_def create402Response_def
        createChatPaymentRequirements_def getModelPrice_def AI_MODEL_PRICING_get_def
        AI_MODEL_PRICING_def Object_prototype_functions_def empty_config processing_error_def)

lemma production_500:
  "status (gate_response production_world ok_handler ''deepseek'' False None
             (unpaid_request ''deepseek'')) = 500"
  by (simp add: gate_response_def withX402Payment_def production_world_def paid_world_def
        unpaid_method getX402Config_def truthy_def Let_def processing_error_def)

lemma options_200:
  "status (gate_response paid_world ok_handler ''deepseek'' False None
               ((unpaid_request ''deepseek'')\<lparr>req_method := ''OPTIONS''\<rparr>)) = 200"
  by (simp add: gate_response_def withX402Payment_def preflight_def)

lemma vision_price_50000:
  "body (gate_response vision_priced_world ok_handler ''deepseek'' True None
             (unpaid_request ''deepseek''))
       = JsonPaymentRequired 1 ''Payment required'' [deepseek_requirements
           \<lparr>maxAmountRequired := Some ''50000'', description := ''AI Chat - Deepseek Chat (Vision)''\<rparr>]"
proof -
  have cfg: "getX402Config [''PRICE_DEEPSEEK_VISION'' \<mapsto> ''50000''] = Inr default_config"
    by (simp add: getX402Config_def default_config_def or_default_def or_else_def truthy_def
        USDC_MINT_ADDRESSES_def Let_def)
  show ?thesis
    by (simp add: gate_response_def withX402Payment_def vision_priced_world_def paid_world_def
        unpaid_model unpaid_header unpaid_method handlePaymentFlow_def reject402_def
        create402Response_def createChatPaymentRequirements_def getModelPrice_def
        AI_MODEL_PRICING_get_def AI_MODEL_PRICING_def getPrice_def is_digit_def cfg default_config_def default_endpoint_def
        deepseek_requirements_def or_default_def)
qed

text \<open>
  The claim as stated fails: with no payment header, an unknown model id and a production
  environment without treasury address are answered with status 500, a preflight with
  status 200; and with \<^verbatim>\<open>PRICE_DEEPSEEK\<close> unset, a vision request to \<^verbatim>\<open>deepseek\<close> is
  priced by \<^verbatim>\<open>PRICE_DEEPSEEK_VISION\<close>.
\<close>

theorem no_proof_not_always_402:
  "status (gate_response paid_world ok_handler ''deepseek'' False None (unpaid_request ''foo'')) = 500
   \<and> status (gate_response production_world ok_handler ''deepseek'' False None
               (unpaid_request ''deepseek'')) = 500
   \<and> status (gate_response paid_world ok_handler ''deepseek'' False None
               ((unpaid_request ''deepseek'')\<lparr>req_method := ''OPTIONS''\<rparr>)) = 200
   \<and> process_env vision_priced_world ''PRICE_DEEPSEEK'' = None
   \<and> body (gate_response vision_priced_world ok_handler ''deepseek'' True None
             (unpaid_request ''deepseek''))
       = JsonPaymentRequired 1 ''Payment required'' [deepseek_requirements
           \<lparr>maxAmountRequired := Some ''50000'', description := ''AI Chat - Deepseek Chat (Vision)''\<rparr>]"
  using unknown_model_500 production_500 options_200 vision_price_50000
  by (simp add: vision_priced_world_def)

subsection \<open>The price lookup\<close>

lemma getPrice_fallback: "\<not> configured env k \<Longrightarrow> getPrice env k d = d"
  by (auto simp add: getPrice_def configured_def split: option.splits)

lemma getPrice_digits:
  "d \<noteq> [] \<Longrightarrow> list_all is_digit d \<Longrightarrow> getPrice env k d \<noteq> [] \<and> list_all is_digit (getPrice env k d)"
  by (auto simp add: getPrice_def split: option.splits)

lemma pricing_cong:
  "\<forall>k \<in> set price_keys. env' k = env k \<Longrightarrow> AI_MODEL_PRICING env' = AI_MODEL_PRICING env"
  by (simp add: AI_MODEL_PRICING_def price_keys_def getPrice_def)

lemma fallback_digits:
  "list_all is_digit ''100000''" "list_all is_digit ''150000''" "list_all is_digit ''200000''"
  "list_all is_digit ''250000''" "list_all is_digit ''30000''"
  by (simp_all add: is_digit_def)

lemma fallback_order:
  "decimal ''100000'' \<le> decimal ''150000''" "decimal ''200000'' \<le> decimal ''250000''"
  "decimal ''30000'' \<le> decimal ''30000''"
  by (simp_all add: decimal_def digit_value_def)

lemma supported_cases:
  assumes "m \<in> set supported_models"
  obtains "m = ''gpt-5''" | "m = ''claude-sonnet-4-5''" | "m = ''deepseek''"
  using assms by (auto simp add: supported_models_def)

lemma price_is_decimal:
  assumes "m \<in> set supported_models"
  shows "\<exists>p. getModelPrice env m hv = Inr (Some p) \<and> p \<noteq> [] \<and> list_all is_digit p"
  using assms
proof (cases rule: supported_cases)
  case 1
  show ?thesis unfolding 1
    by (cases hv)
       (simp_all add: getModelPrice_def AI_MODEL_PRICING_get_def AI_MODEL_PRICING_def FALLBACK_PRICING_gpt5_def
          getPrice_digits is_digit_def)
next
  case 2
  show ?thesis unfolding 2
    by (cases hv)
       (simp_all add: getModelPrice_def AI_MODEL_PRICING_get_def AI_MODEL_PRICING_def FALLBACK_PRICING_claude_def
          getPrice_digits is_digit_def)
next
  case 3
  show ?thesis unfolding 3
    by (cases hv)
       (simp_all add: getModelPrice_def AI_MODEL_PRICING_get_def AI_MODEL_PRICING_def FALLBACK_PRICING_deepseek_def
          getPrice_digits is_digit_def)
qed

lemma fallback_prices:
  assumes "\<forall>k \<in> set price_keys. \<not> configured env k"
  shows "AI_MODEL_PRICING env = AI_MODEL_PRICING Map.empty"
proof -
  have "getPrice env k d = getPrice Map.empty k d" if "k \<in> set price_keys" for k d
    using assms that by (simp add: getPrice_fallback configured_def)
  then show ?thesis by (simp add: AI_MODEL_PRICING_def price_keys_def)
qed

lemma fallback_monotonic:
  assumes "m \<in> set supported_models"
      and "getModelPrice Map.empty m False = Inr (Some b)"
      and "getModelPrice Map.empty m True = Inr (Some v)"
  shows "decimal b \<le> decimal v"
  using assms(1)
proof (cases rule: supported_cases)
  case 1
  have "b = ''100000''" "v = ''150000''" using assms(2,3) unfolding 1
    by (simp_all add: getModelPrice_def AI_MODEL_PRICING_get_def AI_MODEL_PRICING_def getPrice_def FALLBACK_PRICING_gpt5_def)
  then show ?thesis using fallback_order by simp
next
  case 2
  have "b = ''200000''" "v = ''250000''" using assms(2,3) unfolding 2
    by (simp_all add: getModelPrice_def AI_MODEL_PRICING_get_def AI_MODEL_PRICING_def getPrice_def FALLBACK_PRICING_claude_def)
  then show ?thesis using fallback_order by simp
next
  case 3
  have "b = ''30000''" "v = ''30000''" using assms(2,3) unfolding 3
    by (simp_all add: getModelPrice_def AI_MODEL_PRICING_get_def AI_MODEL_PRICING_def getPrice_def FALLBACK_PRICING_deepseek_def)
  then show ?thesis by simp
qed

text \<open>
  Claim C4, as amended. For a supported model and either value of \<^verbatim>\<open>hasVision\<close> the
  price lookup returns a non-empty string of decimal digits that depends on the environment
  through the five price variables only; and where none of them holds a price (the
  fallback constants apply) the vision price is at least the base price.
\<close>

theorem price_deterministic_fallback_monotonic:
  assumes m: "m \<in> set supported_models"
  shows "\<exists>b v. getModelPrice env m False = Inr (Some b) \<and> getModelPrice env m True = Inr (Some v)
           \<and> b \<noteq> [] \<and> list_all is_digit b \<and> v \<noteq> [] \<and> list_all is_digit v
           \<and> ((\<forall>k \<in> set price_keys. env' k = env k) \<longrightarrow>
                 getModelPrice env' m hasVision = getModelPrice env m hasVision)
           \<and> ((\<forall>k \<in> set price_keys. \<not> configured env k) \<longrightarrow> decimal b \<le> decimal v)"
proof -
  from price_is_decimal[OF m] obtain b where
    b: "getModelPrice env m False = Inr (Some b)" "b \<noteq> []" "list_all is_digit b" by blast
  from price_is_decimal[OF m] obtain v where
    v: "getModelPrice env m True = Inr (Some v)" "v \<noteq> []" "list_all is_digit v" by blast
  have det: "getModelPrice env' m hasVision = getModelPrice env m hasVision"
    if "\<forall>k \<in> set price_keys. env' k = env k"
    using pricing_cong[OF that] by (simp add: getModelPrice_def AI_MODEL_PRICING_get_def)
  have mono: "decimal b \<le> decimal v" if f: "\<forall>k \<in> set price_keys. \<not> configured env k"
  proof -
    have "getModelPrice env m hv = getModelPrice Map.empty m hv" for hv
      using fallback_prices[OF f] by (simp add: getModelPrice_def AI_MODEL_PRICING_get_def)
    with b(1) v(1) show ?thesis using fallback_monotonic[OF m] by simp
  qed
  show ?thesis using b v det mono by blast
qed

theorem price_deterministic_fallback_monotonic_witness:
  "getModelPrice Map.empty ''gpt-5'' False = Inr (Some ''100000'')
   \<and> getModelPrice Map.empty ''gpt-5'' True = Inr (Some ''150000'')
   \<and> decimal ''100000'' \<le> decimal ''150000''"
proof -
  have m: "''gpt-5'' \<in> set supported_models" by (simp add: supported_models_def)
  have f: "\<forall>k \<in> set price_keys. \<not> configured Map.empty k" by (simp add: configured_def)
  have e: "getModelPrice Map.empty ''gpt-5'' False = Inr (Some ''100000'')"
          "getModelPrice Map.empty ''gpt-5'' True = Inr (Some ''150000'')"
    by (simp_all add: getModelPrice_def AI_MODEL_PRICING_get_def AI_MODEL_PRICING_def getPrice_def FALLBACK_PRICING_gpt5_def)
  from price_deterministic_fallback_monotonic[OF m, of Map.empty Map.empty False] f e
  show ?thesis by auto
qed

text \<open>
  The claim as stated fails: the environment sets each price on its own, and with only
  \<^verbatim>\<open>PRICE_GPT\<close> set to \<^verbatim>\<open>200000\<close> the vision price of \<^verbatim>\<open>gpt-5\<close>, still the fallback
  \<^verbatim>\<open>150000\<close>, is below its base price.
\<close>

theorem vision_price_below_base:
  "getModelPrice [''PRICE_GPT'' \<mapsto> ''200000''] ''gpt-5'' False = Inr (Some ''200000'')
   \<and> getModelPrice [''PRICE_GPT'' \<mapsto> ''200000''] ''gpt-5'' True = Inr (Some ''150000'')
   \<and> decimal ''150000'' < decimal ''200000''"
  by (simp add: getModelPrice_def AI_MODEL_PRICING_get_def AI_MODEL_PRICING_def getPrice_def
        FALLBACK_PRICING_gpt5_def is_digit_def decimal_def digit_value_def)

section \<open>Properties of the message conversions\<close>

subsection \<open>The text-only conversion\<close>

lemma join_empty_iff: "sep \<noteq> [] \<Longrightarrow> join sep xs = [] \<longleftrightarrow> xs = [] \<or> xs = [[]]"
  by (induction sep xs rule: join.induct) auto

lemma images_unsupported_nonempty: "images_unsupported \<noteq> []"
  by (simp add: images_unsupported_def)

lemma textParts_images: "(\<forall>p \<in> set ps. text_of p = None) \<Longrightarrow> textParts ps = []"
  by (induction ps) (auto simp add: textParts_def List.map_filter_simps)

text \<open>
  Claim C5, as amended. For a message with array content the text-only conversion keeps the
  role and returns the text parts joined by newline, except that it returns the fixed
  placeholder exactly when the array has no text part or its only text part is empty; the
  result is never empty, for content of image parts only it is the placeholder, and for
  the array of the text \<^verbatim>\<open>hi\<close> and an image it is \<^verbatim>\<open>hi\<close>.
\<close>

theorem text_only_conversion:
  "tm_role (toTextOnlyMessage \<lparr>role = r, content = Parts ps\<rparr>) = r
   \<and> tm_content (toTextOnlyMessage \<lparr>role = r, content = Parts ps\<rparr>) =
       (if textParts ps = [] \<or> textParts ps = [[]] then images_unsupported
        else join [CHR 0x0A] (textParts ps))
   \<and> tm_content (toTextOnlyMessage \<lparr>role = r, content = Parts ps\<rparr>) \<noteq> []
   \<and> ((\<forall>p \<in> set ps. text_of p = None) \<longrightarrow>
         tm_content (toTextOnlyMessage \<lparr>role = r, content = Parts ps\<rparr>) = images_unsupported)
   \<and> tm_content (toTextOnlyMessage
         \<lparr>role = r, content = Parts [TextContent ''hi'', ImageContent url d]\<rparr>) = ''hi''"
proof -
  have j: "join [CHR 0x0A] (textParts ps) = [] \<longleftrightarrow> textParts ps = [] \<or> textParts ps = [[]]"
    by (rule join_empty_iff) simp
  have c: "tm_content (toTextOnlyMessage \<lparr>role = r, content = Parts ps\<rparr>) =
       (if textParts ps = [] \<or> textParts ps = [[]] then images_unsupported
        else join [CHR 0x0A] (textParts ps))"
    using j by (simp add: toTextOnlyMessage_def)
  have n: "tm_content (toTextOnlyMessage \<lparr>role = r, content = Parts ps\<rparr>) \<noteq> []"
    unfolding c using j images_unsupported_nonempty by (simp split: if_splits)
  have i: "tm_content (toTextOnlyMessage \<lparr>role = r, content = Parts ps\<rparr>) = images_unsupported"
    if "\<forall>p \<in> set ps. text_of p = None"
    unfolding c using textParts_images[OF that] by simp
  have e: "tm_content (toTextOnlyMessage
         \<lparr>role = r, content = Parts [TextContent ''hi'', ImageContent url d]\<rparr>) = ''hi''"
    by (simp add: toTextOnlyMessage_def textParts_def List.map_filter_simps)
  show ?thesis using c n i e by (simp add: toTextOnlyMessage_def)
qed

theorem text_only_conversion_witness:
  "text_of (ImageContent ''https://example.org/cat.png'' None) = None
   \<and> tm_content (toTextOnlyMessage
        \<lparr>role = User, content = Parts [ImageContent ''https://example.org/cat.png'' None]\<rparr>)
       = images_unsupported"
  using text_only_conversion[of User "[ImageContent ''https://example.org/cat.png'' None]" "[]" None]
  by (simp add: textParts_def List.map_filter_simps)

text \<open>
  The claim as stated fails: an array whose one part is an empty text has a text part and
  no image part, and the conversion returns the placeholder, not the join of its text
  parts.
\<close>

theorem placeholder_for_empty_text:
  "textParts [TextContent []] = [[]]
   \<and> join [CHR 0x0A] (textParts [TextContent []]) = []
   \<and> tm_content (toTextOnlyMessage \<lparr>role = User, content = Parts [TextContent []]\<rparr>)
       = images_unsupported
   \<and> images_unsupported \<noteq> join [CHR 0x0A] (textParts [TextContent []])"
  by (simp add: toTextOnlyMessage_def textParts_def List.map_filter_simps images_unsupported_def)

subsection \<open>The typed-block conversion\<close>

lemma strip_prefix_Some: "strip_prefix p s = Some r \<longleftrightarrow> s = p @ r"
  by (induction p s rule: strip_prefix.induct) auto

lemma strip_prefix_append: "strip_prefix p (p @ r) = Some r"
  by (simp add: strip_prefix_Some)

lemma semicolon_not_word: "\<not> is_word CHR '';''"
  by (simp add: is_word_def)

lemma word_run:
  assumes "list_all is_word w"
  shows "takeWhile is_word (w @ '';base64,'' @ d) = w"
    and "dropWhile is_word (w @ '';base64,'' @ d) = '';base64,'' @ d"
  using assms semicolon_not_word by (simp_all add: list_all_iff takeWhile_append2 dropWhile_append2)

lemma match_data_url_iff: "match_data_url url = Some (mt, d) \<longleftrightarrow> data_url url mt d"
proof
  assume m: "match_data_url url = Some (mt, d)"
  then obtain r where r: "strip_prefix ''data:image/'' url = Some r"
    by (auto simp add: match_data_url_def split: option.splits)
  from m r have w: "takeWhile is_word r \<noteq> []"
    by (auto simp add: match_data_url_def split: if_splits)
  from m r w obtain d' where d': "strip_prefix '';base64,'' (dropWhile is_word r) = Some d'"
    by (auto simp add: match_data_url_def split: option.splits)
  from m r w d' have res: "d \<noteq> []" "\<not> has_line_terminator d" "mt = ''image/'' @ takeWhile is_word r" "d' = d"
    by (auto simp add: match_data_url_def split: if_splits)
  have "r = takeWhile is_word r @ dropWhile is_word r" by simp
  also have "dropWhile is_word r = '';base64,'' @ d" using d' res(4) by (simp add: strip_prefix_Some)
  finally have rr: "r = takeWhile is_word r @ '';base64,'' @ d" .
  have "url = ''data:image/'' @ r" using r by (simp add: strip_prefix_Some)
  then have "url = ''data:'' @ mt @ '';base64,'' @ d" using rr res(3) by simp
  moreover have "list_all is_word (takeWhile is_word r)"
    by (simp add: list_all_iff) (meson set_takeWhileD)
  ultimately show "data_url url mt d" using w res unfolding data_url_def by blast
next
  assume "data_url url mt d"
  then obtain w where w: "mt = ''image/'' @ w" "w \<noteq> []" "list_all is_word w" "d \<noteq> []"
    "\<not> has_line_terminator d" "url = ''data:'' @ mt @ '';base64,'' @ d"
    unfolding data_url_def by blast
  have "url = ''data:image/'' @ (w @ '';base64,'' @ d)" using w(1,6) by simp
  then have r: "strip_prefix ''data:image/'' url = Some (w @ '';base64,'' @ d)"
    using strip_prefix_append by metis
  have s: "strip_prefix '';base64,'' ('';base64,'' @ d) = Some d" by (rule strip_prefix_append)
  show "match_data_url url = Some (mt, d)"
    unfolding match_data_url_def r using word_run[OF w(3)] w(1,2,4,5) s by simp
qed

lemma data_url_startsWith: "data_url url mt d \<Longrightarrow> startsWith url ''data:''"
  by (auto simp add: data_url_def startsWith_def)

lemma block_of_data_url: "data_url url mt d \<Longrightarrow> toAnthropicBlock (ImageContent url dt) = ImageBlock (Base64 mt d)"
  using match_data_url_iff[of url mt d] data_url_startsWith[of url mt d] by simp

lemma block_of_other_url:
  assumes "\<nexists>mt d. data_url url mt d"
  shows "toAnthropicBlock (ImageContent url dt) = ImageBlock (Url url)"
proof -
  have "match_data_url url = None"
  proof (cases "match_data_url url")
    case (Some md)
    then have "data_url url (fst md) (snd md)" using match_data_url_iff[of url "fst md" "snd md"] by simp
    with assms show ?thesis by blast
  qed simp
  then show ?thesis by simp
qed

lemma scenario_data_url: "data_url ''data:image/png;base64,AAAA'' ''image/png'' ''AAAA''"
  unfolding data_url_def by (rule exI[of _ "''png''"]) (simp add: is_word_def)

text \<open>
  Claim C6. For a message with array content the typed-block conversion keeps the role and
  maps the parts one by one, in order: a text part to a text block, an image part whose
  URL is of the form \<^const>\<open>data_url\<close> to an image block with the base64 source of that
  media type and data, and any other image part to an image block with the URL source. The
  array of the text \<^verbatim>\<open>hi\<close> and the image \<^verbatim>\<open>data:image/png;base64,AAAA\<close> gives the text
  block \<^verbatim>\<open>hi\<close> and the base64 image block of \<^verbatim>\<open>image/png\<close> and \<^verbatim>\<open>AAAA\<close>.
\<close>

theorem typed_block_conversion:
  "am_role (toAnthropicMessage \<lparr>role = r, content = Parts ps\<rparr>) = r
   \<and> (\<exists>bs. am_content (toAnthropicMessage \<lparr>role = r, content = Parts ps\<rparr>) = Blocks bs
          \<and> length bs = length ps
          \<and> (\<forall>i < length ps.
                (\<forall>t. ps ! i = TextContent t \<longrightarrow> bs ! i = TextBlock t)
              \<and> (\<forall>url dt mt d. ps ! i = ImageContent url dt \<and> data_url url mt d \<longrightarrow>
                    bs ! i = ImageBlock (Base64 mt d))
              \<and> (\<forall>url dt. ps ! i = ImageContent url dt \<and> (\<nexists>mt d. data_url url mt d) \<longrightarrow>
                    bs ! i = ImageBlock (Url url))))
   \<and> toAnthropicMessage
        \<lparr>role = r, content = Parts [TextContent ''hi'', ImageContent ''data:image/png;base64,AAAA'' dt']\<rparr>
       = \<lparr>am_role = r, am_content = Blocks [TextBlock ''hi'', ImageBlock (Base64 ''image/png'' ''AAAA'')]\<rparr>"
proof (intro conjI)
  show "\<exists>bs. am_content (toAnthropicMessage \<lparr>role = r, content = Parts ps\<rparr>) = Blocks bs
          \<and> length bs = length ps
          \<and> (\<forall>i < length ps.
                (\<forall>t. ps ! i = TextContent t \<longrightarrow> bs ! i = TextBlock t)
              \<and> (\<forall>url dt mt d. ps ! i = ImageContent url dt \<and> data_url url mt d \<longrightarrow>
                    bs ! i = ImageBlock (Base64 mt d))
              \<and> (\<forall>url dt. ps ! i = ImageContent url dt \<and> (\<nexists>mt d. data_url url mt d) \<longrightarrow>
                    bs ! i = ImageBlock (Url url)))"
  proof (intro exI[of _ "map toAnthropicBlock ps"] conjI allI impI)
    fix i url dt mt d
    assume "i < length ps" and "ps ! i = ImageContent url dt \<and> data_url url mt d"
    then show "map toAnthropicBlock ps ! i = ImageBlock (Base64 mt d)"
      using block_of_data_url by simp
  next
    fix i url dt
    assume "i < length ps" and "ps ! i = ImageContent url dt \<and> (\<nexists>mt d. data_url url mt d)"
    then show "map toAnthropicBlock ps ! i = ImageBlock (Url url)"
      using block_of_other_url by simp
  qed (simp_all add: toAnthropicMessage_def)
next
  show "toAnthropicMessage
        \<lparr>role = r, content = Parts [TextContent ''hi'', ImageContent ''data:image/png;base64,AAAA'' dt']\<rparr>
       = \<lparr>am_role = r, am_content = Blocks [TextBlock ''hi'', ImageBlock (Base64 ''image/png'' ''AAAA'')]\<rparr>"
    using block_of_data_url[OF scenario_data_url] by (simp add: toAnthropicMessage_def)
qed (simp add: toAnthropicMessage_def)

theorem typed_block_conversion_witness:
  "data_url ''data:image/png;base64,AAAA'' ''image/png'' ''AAAA''
   \<and> (\<nexists>mt d. data_url ''https://example.org/cat.png'' mt d)
   \<and> am_content (toAnthropicMessage
        \<lparr>role = User, content = Parts [ImageContent ''data:image/png;base64,AAAA'' None,
                                        ImageContent ''https://example.org/cat.png'' None]\<rparr>)
       = Blocks [ImageBlock (Base64 ''image/png'' ''AAAA''), ImageBlock (Url ''https://example.org/cat.png'')]"
proof -
  have n: "\<nexists>mt d. data_url ''https://example.org/cat.png'' mt d"
    by (auto simp add: data_url_def)
  let ?ps = "[ImageContent ''data:image/png;base64,AAAA'' None,
              ImageContent ''https://example.org/cat.png'' None]"
  from typed_block_conversion[of User ?ps] obtain bs where
    bs: "am_content (toAnthropicMessage \<lparr>role = User, content = Parts ?ps\<rparr>) = Blocks bs"
        "length bs = length ?ps"
        "\<forall>i < length ?ps.
                (\<forall>t. ?ps ! i = TextContent t \<longrightarrow> bs ! i = TextBlock t)
              \<and> (\<forall>url dt mt d. ?ps ! i = ImageContent url dt \<and> data_url url mt d \<longrightarrow>
                    bs ! i = ImageBlock (Base64 mt d))
              \<and> (\<forall>url dt. ?ps ! i = ImageContent url dt \<and> (\<nexists>mt d. data_url url mt d) \<longrightarrow>
                    bs ! i = ImageBlock (Url url))"
    by blast
  have "bs ! 0 = ImageBlock (Base64 ''image/png'' ''AAAA'')"
    using bs(3) scenario_data_url by force
  moreover have "bs ! 1 = ImageBlock (Url ''https://example.org/cat.png'')"
    using bs(3) n by force
  moreover from bs(2) obtain x y where "bs = [x, y]"
    by (cases bs; cases "tl bs"; cases "tl (tl bs)") auto
  ultimately have "bs = [ImageBlock (Base64 ''image/png'' ''AAAA''), ImageBlock (Url ''https://example.org/cat.png'')]"
    by simp
  then show ?thesis using bs(1) n scenario_data_url by simp
qed

section \<open>Properties of the provider adapters\<close>

subsection \<open>Temperature and token limit\<close>

lemma resolved_ranges:
  "0 \<le> resolvedTemperature t" "resolvedTemperature t \<le> 2"
  "256 \<le> resolvedMaxTokens n" "resolvedMaxTokens n \<le> 2048"
  by (simp_all add: resolvedTemperature_def resolvedMaxTokens_def)

lemma max_tokens_passed:
  "max_tokens (DeepseekProvider_request s (callAIProvider_config m msgs t (resolvedMaxTokens n)))
     = resolvedMaxTokens n"
  "max_tokens (GPT5Provider_request s (callAIProvider_config m msgs t (resolvedMaxTokens n)))
     = resolvedMaxTokens n"
  "ab_max_tokens (ClaudeProvider_chat_request (callAIProvider_config m msgs t (resolvedMaxTokens n)))
     = resolvedMaxTokens n"
  using resolved_ranges(3)[of n]
  by (auto simp add: DeepseekProvider_request_def GPT5Provider_request_def
        ClaudeProvider_chat_request_def callAIProvider_config_def number_or_def)

lemma temperature_passed:
  "b_temperature (DeepseekProvider_request s (callAIProvider_config m msgs t n)) =
     (if t = 0 then 7 / 10 else t)"
  "b_temperature (GPT5Provider_request s (callAIProvider_config m msgs t n)) =
     (if t = 0 then 7 / 10 else t)"
  "ab_temperature (ClaudeProvider_chat_request (callAIProvider_config m msgs t n)) =
     (if t = 0 then 7 / 10 else t)"
  by (simp_all add: DeepseekProvider_request_def GPT5Provider_request_def
        ClaudeProvider_chat_request_def callAIProvider_config_def number_or_def)

text \<open>
  Claim C7. The route clamps the temperature to \<open>[0, 2]\<close> and the token limit to
  \<open>[256, 2048]\<close>, and the adapters pass the token limit through; but a request for
  temperature 0 reaches the backend of every adapter as temperature 0.7, since the adapters
  read the temperature with \<^verbatim>\<open>config.temperature || 0.7\<close>.
\<close>

theorem zero_temperature_replaced:
  "resolvedTemperature (Some 0) = 0
   \<and> resolvedMaxTokens (Some 256) = 256
   \<and> b_temperature (DeepseekProvider_request False
        (callAIProvider_config ''deepseek'' [] (resolvedTemperature (Some 0))
           (resolvedMaxTokens (Some 256)))) = 7 / 10
   \<and> b_temperature (GPT5Provider_request False
        (callAIProvider_config ''gpt-5'' [] (resolvedTemperature (Some 0))
           (resolvedMaxTokens (Some 256)))) = 7 / 10
   \<and> ab_temperature (ClaudeProvider_chat_request
        (callAIProvider_config ''claude-sonnet-4-5'' [] (resolvedTemperature (Some 0))
           (resolvedMaxTokens (Some 256)))) = 7 / 10
   \<and> max_tokens (DeepseekProvider_request False
        (callAIProvider_config ''deepseek'' [] (resolvedTemperature (Some 0))
           (resolvedMaxTokens (Some 256)))) = 256"
proof -
  have t: "resolvedTemperature (Some 0) = 0" by (simp add: resolvedTemperature_def)
  have n: "resolvedMaxTokens (Some 256) = 256" by (simp add: resolvedMaxTokens_def)
  show ?thesis
    using max_tokens_passed(1)[of False "''deepseek''" "[]" 0 "Some 256"]
    by (simp add: t n temperature_passed)
qed

subsection \<open>The chunk sequence\<close>

lemma process_lines_done_event:
  "done_event l \<Longrightarrow> process_lines parse (l # ls) = ([done_chunk], True)"
  by (simp add: done_event_def)

lemma process_lines_malformed_event:
  "malformed_event parse l \<Longrightarrow> process_lines parse (l # ls) = process_lines parse ls"
  by (simp add: malformed_event_def)

lemma process_lines_append:
  "process_lines parse (xs @ ys) =
     (case process_lines parse xs of
        (cs, True) \<Rightarrow> (cs, True)
      | (cs, False) \<Rightarrow> (case process_lines parse ys of (cs', d) \<Rightarrow> (cs @ cs', d)))"
  by (induction xs) (auto split: prod.splits delta_result.splits option.splits bool.splits)

lemma process_lines_shape:
  "process_lines parse ls = (cs, d) \<Longrightarrow>
     (if d then cs \<noteq> [] \<and> last cs = done_chunk \<and> (\<forall>c \<in> set (butlast cs). \<not> isComplete c)
      else \<forall>c \<in> set cs. \<not> isComplete c)"
proof (induction ls arbitrary: cs d)
  case Nil
  then show ?case by simp
next
  case (Cons l ls)
  obtain cs0 d0 where r: "process_lines parse ls = (cs0, d0)" by force
  note ih = Cons.IH[OF r]
  show ?case
    using Cons.prems r ih
    by (auto simp add: done_chunk_def split: if_splits delta_result.splits option.splits)
qed

lemma split_nl_nonempty: "split_nl s \<noteq> []"
  by (induction s) (auto split: list.splits)

lemma split_nl_Cons:
  "c \<noteq> CHR 0x0A \<Longrightarrow> split_nl (c # s) = (c # hd (split_nl s)) # tl (split_nl s)"
  using split_nl_nonempty[of s] by (cases "split_nl s") simp_all

lemma split_nl_append:
  "split_nl (x @ y) = butlast (split_nl x) @ split_nl (last (split_nl x) @ y)"
proof (induction x)
  case Nil
  then show ?case by simp
next
  case (Cons c x)
  show ?case
  proof (cases "c = CHR 0x0A")
    case True
    then show ?thesis using Cons split_nl_nonempty by simp
  next
    case False
    note sc = split_nl_Cons[OF False]
    obtain h t where ht: "split_nl x = h # t"
      using split_nl_nonempty[of x] by (cases "split_nl x") auto
    show ?thesis
    proof (cases "t = []")
      case True
      have "split_nl ((c # x) @ y) = (c # hd (split_nl (h @ y))) # tl (split_nl (h @ y))"
        using sc[of "x @ y"] Cons ht True by simp
      also have "\<dots> = split_nl ((c # h) @ y)" using sc[of "h @ y"] by simp
      finally show ?thesis using sc[of x] ht True by simp
    next
      case False
      have "split_nl (x @ y) = h # butlast t @ split_nl (last t @ y)"
        using Cons ht False by simp
      then have "split_nl ((c # x) @ y) = (c # h) # butlast t @ split_nl (last t @ y)"
        using sc[of "x @ y"] by simp
      then show ?thesis using sc[of x] ht False by simp
    qed
  qed
qed

lemma split_nl_last: "CHR 0x0A \<notin> set (last (split_nl s))"
proof (induction s)
  case Nil
  then show ?case by simp
next
  case (Cons c s)
  then show ?case
    using split_nl_nonempty[of s] by (cases "split_nl s"; cases "tl (split_nl s)") auto
qed

lemma split_nl_line: "CHR 0x0A \<notin> set s \<Longrightarrow> split_nl s = [s]"
  by (induction s) auto

lemma read_loop_lines:
  "CHR 0x0A \<notin> set buffer \<Longrightarrow>
   read_loop parse buffer vs e =
     (case process_lines parse (butlast (split_nl (buffer @ concat vs))) of
        (cs, True) \<Rightarrow> (cs, Returned)
      | (cs, False) \<Rightarrow> (cs @ fst (end_of_body e), snd (end_of_body e)))"
proof (induction vs arbitrary: buffer)
  case Nil
  then show ?case by (simp add: split_nl_line)
next
  case (Cons v vs)
  let ?b = "last (split_nl (buffer @ v))"
  have "split_nl (buffer @ concat (v # vs)) =
          butlast (split_nl (buffer @ v)) @ split_nl (?b @ concat vs)"
    using split_nl_append[of "buffer @ v" "concat vs"] by simp
  then have l: "butlast (split_nl (buffer @ concat (v # vs))) =
          butlast (split_nl (buffer @ v)) @ butlast (split_nl (?b @ concat vs))"
    using split_nl_nonempty by (simp add: butlast_append)
  have ih: "read_loop parse ?b vs e =
     (case process_lines parse (butlast (split_nl (?b @ concat vs))) of
        (cs, True) \<Rightarrow> (cs, Returned)
      | (cs, False) \<Rightarrow> (cs @ fst (end_of_body e), snd (end_of_body e)))"
    by (rule Cons.IH) (rule split_nl_last)
  show ?case
    unfolding l process_lines_append
    by (simp add: ih split: prod.splits bool.splits)
qed

lemma streamed_lines:
  "read_loop parse [] vs e =
     (case process_lines parse (stream_lines vs) of
        (cs, True) \<Rightarrow> (cs, Returned)
      | (cs, False) \<Rightarrow> (cs @ fst (end_of_body e), snd (end_of_body e)))"
  using read_loop_lines[of "[]" parse vs e] by (simp add: stream_lines_def)

lemma delivered_shape:
  "\<exists>cs. read_loop parse [] vs Done = (cs @ [done_chunk], Returned)
        \<and> (\<forall>c \<in> set cs. \<not> isComplete c)"
proof -
  obtain cs d where r: "process_lines parse (stream_lines vs) = (cs, d)" by force
  show ?thesis
  proof (cases d)
    case True
    with process_lines_shape[OF r] have
      "cs = butlast cs @ [done_chunk]" "\<forall>c \<in> set (butlast cs). \<not> isComplete c"
      using append_butlast_last_id[of cs] by auto
    moreover have "read_loop parse [] vs Done = (cs, Returned)"
      using r True by (simp add: streamed_lines)
    ultimately show ?thesis by metis
  next
    case False
    have "read_loop parse [] vs Done = (cs @ [done_chunk], Returned)"
      using r False by (simp add: streamed_lines)
    moreover have "\<forall>c \<in> set cs. \<not> isComplete c"
      using process_lines_shape[OF r] False by simp
    ultimately show ?thesis by blast
  qed
qed

lemma done_event_ends:
  assumes "stream_lines vs = pre @ l # post" and "done_event l"
      and "\<not> snd (process_lines parse pre)"
  shows "read_loop parse [] vs e = (fst (process_lines parse pre) @ [done_chunk], Returned)"
proof -
  obtain cs where cs: "process_lines parse pre = (cs, False)"
    using assms(3) by (cases "process_lines parse pre") simp
  have "process_lines parse (l # post) = ([done_chunk], True)"
    by (rule process_lines_done_event[OF assms(2)])
  then have "process_lines parse (pre @ l # post) = (cs @ [done_chunk], True)"
    using cs by (simp only: process_lines_append[of parse pre] prod.case bool.case)
  then show ?thesis using assms(1) cs by (simp add: streamed_lines)
qed

lemma malformed_event_skipped:
  assumes "stream_lines vs = pre @ l # post" and "malformed_event parse l"
      and "stream_lines vs' = pre @ post"
  shows "read_loop parse [] vs e = read_loop parse [] vs' e"
proof -
  have "process_lines parse (l # post) = process_lines parse post"
    by (rule process_lines_malformed_event[OF assms(2)])
  then have "process_lines parse (pre @ l # post) = process_lines parse (pre @ post)"
    by (simp only: process_lines_append[of parse pre])
  then show ?thesis using assms(1,3) by (simp add: streamed_lines)
qed

lemma undelivered:
  assumes "\<not> snd (process_lines parse (stream_lines vs))"
  shows "read_loop parse [] vs (ReadRejected err) =
           (fst (process_lines parse (stream_lines vs)), Threw err)"
    and "read_loop parse [] vs Stalled = (fst (process_lines parse (stream_lines vs)), Pending)"
    and "\<forall>c \<in> set (fst (process_lines parse (stream_lines vs))). \<not> isComplete c"
proof -
  obtain cs where cs: "process_lines parse (stream_lines vs) = (cs, False)"
    using assms by (cases "process_lines parse (stream_lines vs)") simp
  show "read_loop parse [] vs (ReadRejected err) =
           (fst (process_lines parse (stream_lines vs)), Threw err)"
    using cs by (simp add: streamed_lines)
  show "read_loop parse [] vs Stalled = (fst (process_lines parse (stream_lines vs)), Pending)"
    using cs by (simp add: streamed_lines)
  show "\<forall>c \<in> set (fst (process_lines parse (stream_lines vs))). \<not> isComplete c"
    using process_lines_shape[OF cs] cs by simp
qed

text \<open>
  Claim C8, as amended. Given an API key and an upstream response with a body,
  \<^verbatim>\<open>streamChat\<close> of the Deepseek and of the GPT-5 adapter runs the read loop on the body.
  When the body is delivered to its end, the generator returns after a finite sequence of
  chunks that ends with the one complete chunk, of empty text, and holds no other complete
  chunk. The sequence depends on the complete lines of the upstream text only: a line
  \<^verbatim>\<open>data: [DONE]\<close> ends it with the chunks of the lines before and the terminator, however
  the body ends after it, and a line whose payload does not parse changes nothing, as if
  it were not there. When a read of the body rejects, or never settles, before a line
  \<^verbatim>\<open>data: [DONE]\<close> has come, the generator throws that error, or waits for ever, after the
  chunks of the lines it has read, none of them complete.
\<close>

theorem stream_ends_with_one_complete_chunk:
  "(apiKey \<noteq> [] \<and> fetch_d (DeepseekProvider_request True config) = Answered response
      \<and> up_ok response \<and> up_body response = Some (vs, e) \<longrightarrow>
      DeepseekProvider_streamChat apiKey parse fetch_d config = read_loop parse [] vs e)
   \<and> (apiKey \<noteq> [] \<and> fetch_g (GPT5Provider_request True config) = Answered response
      \<and> up_ok response \<and> up_body response = Some (vs, e) \<longrightarrow>
      GPT5Provider_streamChat apiKey parse fetch_g config = read_loop parse [] vs e)
   \<and> (\<exists>cs. read_loop parse [] vs Done = (cs @ [done_chunk], Returned)
           \<and> (\<forall>c \<in> set cs. \<not> isComplete c))
   \<and> (stream_lines vs = pre @ l # post \<and> done_event l \<and> \<not> snd (process_lines parse pre) \<longrightarrow>
        read_loop parse [] vs e = (fst (process_lines parse pre) @ [done_chunk], Returned))
   \<and> (stream_lines vs = pre @ l # post \<and> malformed_event parse l \<and> stream_lines vs' = pre @ post \<longrightarrow>
        read_loop parse [] vs e = read_loop parse [] vs' e)
   \<and> (\<not> snd (process_lines parse (stream_lines vs)) \<longrightarrow>
        read_loop parse [] vs (ReadRejected err) =
          (fst (process_lines parse (stream_lines vs)), Threw err)
        \<and> read_loop parse [] vs Stalled = (fst (process_lines parse (stream_lines vs)), Pending)
        \<and> (\<forall>c \<in> set (fst (process_lines parse (stream_lines vs))). \<not> isComplete c))"
proof (intro conjI impI)
  assume "apiKey \<noteq> [] \<and> fetch_d (DeepseekProvider_request True config) = Answered response
      \<and> up_ok response \<and> up_body response = Some (vs, e)"
  then show "DeepseekProvider_streamChat apiKey parse fetch_d config = read_loop parse [] vs e"
    by (simp add: DeepseekProvider_streamChat_def)
next
  assume "apiKey \<noteq> [] \<and> fetch_g (GPT5Provider_request True config) = Answered response
      \<and> up_ok response \<and> up_body response = Some (vs, e)"
  then show "GPT5Provider_streamChat apiKey parse fetch_g config = read_loop parse [] vs e"
    by (simp add: GPT5Provider_streamChat_def)
next
  show "\<exists>cs. read_loop parse [] vs Done = (cs @ [done_chunk], Returned)
           \<and> (\<forall>c \<in> set cs. \<not> isComplete c)"
    by (rule delivered_shape)
next
  assume "stream_lines vs = pre @ l # post \<and> done_event l \<and> \<not> snd (process_lines parse pre)"
  then show "read_loop parse [] vs e = (fst (process_lines parse pre) @ [done_chunk], Returned)"
    using done_event_ends by blast
next
  assume "stream_lines vs = pre @ l # post \<and> malformed_event parse l \<and> stream_lines vs' = pre @ post"
  then show "read_loop parse [] vs e = read_loop parse [] vs' e"
    using malformed_event_skipped by blast
next
  assume a: "\<not> snd (process_lines parse (stream_lines vs))"
  show "read_loop parse [] vs (ReadRejected err) =
          (fst (process_lines parse (stream_lines vs)), Threw err)"
    by (rule undelivered(1)[OF a])
  show "read_loop parse [] vs Stalled = (fst (process_lines parse (stream_lines vs)), Pending)"
    by (rule undelivered(2)[OF a])
  show "\<forall>c \<in> set (fst (process_lines parse (stream_lines vs))). \<not> isComplete c"
    by (rule undelivered(3)[OF a])
qed

lemma hello_lines:
  "stream_lines hello_reads =
     [''data: '' @ hello_payload, ''data: {bad'', ''data: [DONE]'' @ [CHR 0x0D],
      ''data: '' @ hello_payload]"
  "stream_lines [hd hello_reads] = [''data: '' @ hello_payload]"
  by (simp_all add: stream_lines_def hello_reads_def hello_payload_def)

lemma hello_events:
  "done_event (''data: [DONE]'' @ [CHR 0x0D])" "malformed_event hello_parse ''data: {bad''"
  "process_lines hello_parse [''data: '' @ hello_payload] =
     ([\<lparr>chunk_text = ''Hello'', isComplete = False\<rparr>], False)"
  by code_simp+

theorem stream_ends_with_one_complete_chunk_witness:
  "DeepseekProvider_streamChat ''key'' hello_parse hello_upstream hello_config =
      ([\<lparr>chunk_text = ''Hello'', isComplete = False\<rparr>, done_chunk], Returned)
   \<and> GPT5Provider_streamChat ''key'' hello_parse hello_upstream hello_config =
      ([\<lparr>chunk_text = ''Hello'', isComplete = False\<rparr>, done_chunk], Returned)
   \<and> done_event (''data: [DONE]'' @ [CHR 0x0D])
   \<and> malformed_event hello_parse ''data: {bad''
   \<and> \<not> snd (process_lines hello_parse (stream_lines [hd hello_reads]))
   \<and> read_loop hello_parse [] [hd hello_reads] Stalled =
      ([\<lparr>chunk_text = ''Hello'', isComplete = False\<rparr>], Pending)"
proof -
  let ?r = "\<lparr>up_ok = True, up_status = 200, up_statusText = ''OK'', up_text = Inr [],
               up_body = Some (hello_reads, Done)\<rparr>"
  have l: "stream_lines hello_reads =
      [''data: '' @ hello_payload, ''data: {bad''] @ (''data: [DONE]'' @ [CHR 0x0D]) #
      [''data: '' @ hello_payload]"
    by (simp add: hello_lines)
  have p: "process_lines hello_parse [''data: '' @ hello_payload, ''data: {bad''] =
     ([\<lparr>chunk_text = ''Hello'', isComplete = False\<rparr>], False)"
  proof -
    have "process_lines hello_parse [''data: {bad''] = process_lines hello_parse []"
      by (rule process_lines_malformed_event[OF hello_events(2)])
    then have "process_lines hello_parse ([''data: '' @ hello_payload] @ [''data: {bad'']) =
       ([\<lparr>chunk_text = ''Hello'', isComplete = False\<rparr>], False)"
      by (simp only: process_lines_append[of hello_parse "[''data: '' @ hello_payload]"]
            hello_events(3) prod.case bool.case process_lines.simps(1) append_Nil2)
    then show ?thesis by (simp only: append_Cons append_Nil)
  qed
  note full = stream_ends_with_one_complete_chunk[where apiKey = "''key''"
      and fetch_d = hello_upstream and fetch_g = hello_upstream and config = hello_config
      and response = ?r and vs = hello_reads and e = Done and parse = hello_parse
      and pre = "[''data: '' @ hello_payload, ''data: {bad'']"
      and l = "''data: [DONE]'' @ [CHR 0x0D]" and post = "[''data: '' @ hello_payload]"]
  note cut = stream_ends_with_one_complete_chunk[where parse = hello_parse
      and vs = "[hd hello_reads]" and err = "Error ''terminated''"]
  have r: "read_loop hello_parse [] hello_reads Done =
      ([\<lparr>chunk_text = ''Hello'', isComplete = False\<rparr>, done_chunk], Returned)"
    using full[THEN conjunct2, THEN conjunct2, THEN conjunct2, THEN conjunct1] l p hello_events(1)
    by simp
  have d: "DeepseekProvider_streamChat ''key'' hello_parse hello_upstream hello_config =
      ([\<lparr>chunk_text = ''Hello'', isComplete = False\<rparr>, done_chunk], Returned)"
    using full[THEN conjunct1] by (simp add: hello_upstream_def r)
  have g: "GPT5Provider_streamChat ''key'' hello_parse hello_upstream hello_config =
      ([\<lparr>chunk_text = ''Hello'', isComplete = False\<rparr>, done_chunk], Returned)"
    using full[THEN conjunct2, THEN conjunct1] by (simp add: hello_upstream_def r)
  have n: "\<not> snd (process_lines hello_parse (stream_lines [hd hello_reads]))"
    by (simp only: hello_lines(2) hello_events(3) snd_conv not_False_eq_True)
  have s: "read_loop hello_parse [] [hd hello_reads] Stalled =
      ([\<lparr>chunk_text = ''Hello'', isComplete = False\<rparr>], Pending)"
    using cut[THEN conjunct2, THEN conjunct2, THEN conjunct2, THEN conjunct2, THEN conjunct2,
              rule_format, OF n, THEN conjunct2, THEN conjunct1]
    by (simp only: hello_lines(2) hello_events(3) fst_conv)
  show ?thesis using d g hello_events(1,2) n s by simp
qed

text \<open>
  The claim as stated fails: when the connection breaks after the first read has
  delivered a delta, \<^verbatim>\<open>await reader.read()\<close> rejects, and the generator throws after the
  one chunk it has yielded: the sequence has no complete chunk.
\<close>

theorem stream_cut_before_terminator:
  "DeepseekProvider_streamChat ''key'' hello_parse cut_upstream hello_config =
      ([\<lparr>chunk_text = ''Hello'', isComplete = False\<rparr>], Threw (Error ''terminated''))
   \<and> GPT5Provider_streamChat ''key'' hello_parse cut_upstream hello_config =
      ([\<lparr>chunk_text = ''Hello'', isComplete = False\<rparr>], Threw (Error ''terminated''))"
proof -
  have "read_loop hello_parse [] [hd hello_reads] (ReadRejected (Error ''terminated'')) =
      ([\<lparr>chunk_text = ''Hello'', isComplete = False\<rparr>], Threw (Error ''terminated''))"
    by (simp only: streamed_lines hello_lines(2) hello_events(3) prod.case bool.case
          end_of_body.simps fst_conv snd_conv append_Nil2)
  then show ?thesis
    by (simp add: DeepseekProvider_streamChat_def GPT5Provider_streamChat_def cut_upstream_def)
qed

section \<open>Properties of the chat route\<close>

subsection \<open>Attachments that are too big or malformed\<close>



















section \<open>Properties of the settlement receipt\<close>

lemma ascii_append: "ascii (a @ b) \<longleftrightarrow> ascii a \<and> ascii b"
  by (simp add: ascii_def)

lemma ascii_Cons: "ascii (c # s) \<longleftrightarrow> (of_char c :: nat) < 128 \<and> ascii s"
  by (simp add: ascii_def)

lemma ascii_Nil: "ascii []"
  by (simp add: ascii_def)

lemma latin1_ascii: "ascii s \<Longrightarrow> latin1 s = Some (map of_char s)"
  by (induction s) (simp_all add: ascii_Cons)

lemma hex_digit_ascii: "n < 16 \<Longrightarrow> (of_char (''0123456789abcdef'' ! n) :: nat) < 128"
proof -
  assume "n < 16"
  then have "''0123456789abcdef'' ! n \<in> set ''0123456789abcdef''" by (intro nth_mem) simp
  then show ?thesis by auto
qed

lemma json_escape_ascii: "(of_char c :: nat) < 128 \<Longrightarrow> ascii (json_escape c)"
proof -
  assume a: "(of_char c :: nat) < 128"
  have "(of_char c :: nat) < 32 \<Longrightarrow> (of_char c :: nat) div 16 < 16" by simp
  then show ?thesis
    using a hex_digit_ascii[of "of_char c div 16"] hex_digit_ascii[of "of_char c mod 16"]
    by (simp add: json_escape_def Let_def ascii_Cons ascii_Nil)
qed

lemma json_string_ascii: "ascii s \<Longrightarrow> ascii (json_string s)"
proof -
  assume "ascii s"
  then have "ascii (concat (map json_escape s))"
    by (induction s) (simp_all add: ascii_Cons ascii_Nil ascii_append json_escape_ascii)
  then show ?thesis by (simp add: json_string_def ascii_append ascii_Cons ascii_Nil)
qed

lemma literal_ascii:
  "ascii ''success''" "ascii ''transaction''" "ascii ''network''" "ascii ''amount''"
  "ascii ''timestamp''" "ascii ''{''" "ascii '':true,''" "ascii '':''" "ascii '',''" "ascii ''}''"
  by (simp_all add: ascii_def)

lemma JSON_stringify_ascii:
  "ascii (pr_transaction r) \<Longrightarrow> ascii (pr_network r) \<Longrightarrow> ascii (pr_amount r)
     \<Longrightarrow> ascii (pr_timestamp r) \<Longrightarrow> ascii (JSON_stringify r)"
  unfolding JSON_stringify_def
  by (simp only: ascii_append json_string_ascii literal_ascii simp_thms)

lemma receipt_encodes:
  assumes "ascii (or_default (transaction s) [])" "ascii (cfg_network this)"
      and "ascii (or_default (amount s) ''0'')" "ascii (now w)"
  shows "\<exists>v. btoa (JSON_stringify (paymentResponse w this s)) = Inr v"
proof -
  have "ascii (JSON_stringify (paymentResponse w this s))"
    using assms by (intro JSON_stringify_ascii) (simp_all add: paymentResponse_def)
  then show ?thesis by (simp add: btoa_def latin1_ascii)
qed

lemma lower_names:
  "map lower_char ''X-PAYMENT-RESPONSE'' = ''x-payment-response''"
  "map lower_char ''Access-Control-Expose-Headers'' = ''access-control-expose-headers''"
  by (simp_all add: lower_char_def)

lemma new_Response_copyable:
  "copyable r \<Longrightarrow>
     new_Response (body r) (status r) (statusText r) h =
       Inr \<lparr>status = status r, statusText = statusText r, headers = h, body = body r\<rparr>"
  by (auto simp add: new_Response_def copyable_def)

lemma new_Response_refuses:
  "\<not> copyable r \<Longrightarrow> \<exists>e. new_Response (body r) (status r) (statusText r) h = Inl e"
  by (auto simp add: new_Response_def copyable_def)

lemma new_Response_keeps:
  "new_Response b st text h = Inr r' \<Longrightarrow> status r' = st \<and> statusText r' = text \<and> body r' = b"
  by (auto simp add: new_Response_def split: if_splits)

text \<open>
  Claim C10, as amended. Whenever attaching the receipt returns a response, its status,
  status text and body are those of the response given. When the settlement succeeded and
  names a non-empty transaction, the receipt can be encoded, and the constructor accepts
  the body and the status of the response (the body has not been read, the status is
  between 200 and 599), the response returned has the header \<^verbatim>\<open>X-PAYMENT-RESPONSE\<close>,
  the base64 of the receipt, and the header \<^verbatim>\<open>Access-Control-Expose-Headers\<close> that names
  it, every other header being as before; when the constructor does not accept them,
  nothing is returned: it throws. When the settlement failed, or its transaction is absent
  or empty, the response is returned as it is. The receipt can be encoded whenever the
  transaction, the network, the amount and the time are ASCII.
\<close>

theorem receipt_keeps_response:
  "(success s \<and> truthy (transaction s)
      \<and> btoa (JSON_stringify (paymentResponse w this s)) = Inr v \<and> copyable r \<longrightarrow>
      (\<exists>r'. addPaymentResponseHeaders w this r s = Inr r'
            \<and> status r' = status r \<and> statusText r' = statusText r \<and> body r' = body r
            \<and> Headers_get (headers r') ''X-PAYMENT-RESPONSE'' = Some v
            \<and> Headers_get (headers r') ''Access-Control-Expose-Headers'' = Some ''X-PAYMENT-RESPONSE''
            \<and> (\<forall>n. map lower_char n \<noteq> ''x-payment-response''
                     \<and> map lower_char n \<noteq> ''access-control-expose-headers'' \<longrightarrow>
                   Headers_get (headers r') n = Headers_get (headers r) n)))
   \<and> (\<not> success s \<or> \<not> truthy (transaction s) \<longrightarrow> addPaymentResponseHeaders w this r s = Inr r)
   \<and> (ascii (or_default (transaction s) []) \<and> ascii (cfg_network this)
        \<and> ascii (or_default (amount s) ''0'') \<and> ascii (now w) \<longrightarrow>
        (\<exists>v. btoa (JSON_stringify (paymentResponse w this s)) = Inr v))
   \<and> (\<forall>r'. addPaymentResponseHeaders w this r s = Inr r' \<longrightarrow>
          status r' = status r \<and> statusText r' = statusText r \<and> body r' = body r)
   \<and> (success s \<and> truthy (transaction s) \<and> \<not> copyable r \<longrightarrow>
        (\<exists>e. addPaymentResponseHeaders w this r s = Inl e))"
proof (intro conjI impI allI)
  assume a: "success s \<and> truthy (transaction s)
      \<and> btoa (JSON_stringify (paymentResponse w this s)) = Inr v \<and> copyable r"
  let ?r' = "\<lparr>status = status r, statusText = statusText r,
              headers = Headers_set (Headers_set (headers r) ''X-PAYMENT-RESPONSE'' v)
                          ''Access-Control-Expose-Headers'' ''X-PAYMENT-RESPONSE'',
              body = body r\<rparr>"
  have "addPaymentResponseHeaders w this r s = Inr ?r'"
    using a by (simp add: addPaymentResponseHeaders_def new_Response_copyable)
  moreover have "Headers_get (headers ?r') ''X-PAYMENT-RESPONSE'' = Some v"
    unfolding Headers_get_def Headers_set_def lower_names by simp
  moreover have "Headers_get (headers ?r') ''Access-Control-Expose-Headers'' = Some ''X-PAYMENT-RESPONSE''"
    unfolding Headers_get_def Headers_set_def lower_names by simp
  moreover have "\<forall>n. map lower_char n \<noteq> ''x-payment-response''
                     \<and> map lower_char n \<noteq> ''access-control-expose-headers'' \<longrightarrow>
                   Headers_get (headers ?r') n = Headers_get (headers r) n"
    unfolding Headers_get_def Headers_set_def lower_names by simp
  ultimately show "\<exists>r'. addPaymentResponseHeaders w this r s = Inr r'
            \<and> status r' = status r \<and> statusText r' = statusText r \<and> body r' = body r
            \<and> Headers_get (headers r') ''X-PAYMENT-RESPONSE'' = Some v
            \<and> Headers_get (headers r') ''Access-Control-Expose-Headers'' = Some ''X-PAYMENT-RESPONSE''
            \<and> (\<forall>n. map lower_char n \<noteq> ''x-payment-response''
                     \<and> map lower_char n \<noteq> ''access-control-expose-headers'' \<longrightarrow>
                   Headers_get (headers r') n = Headers_get (headers r) n)"
    by (intro exI[of _ ?r']) simp
next
  assume "\<not> success s \<or> \<not> truthy (transaction s)"
  then show "addPaymentResponseHeaders w this r s = Inr r"
    by (auto simp add: addPaymentResponseHeaders_def)
next
  assume "ascii (or_default (transaction s) []) \<and> ascii (cfg_network this)
        \<and> ascii (or_default (amount s) ''0'') \<and> ascii (now w)"
  then show "\<exists>v. btoa (JSON_stringify (paymentResponse w this s)) = Inr v"
    using receipt_encodes by blast
next
  fix r'
  assume "addPaymentResponseHeaders w this r s = Inr r'"
  then have "status r' = status r \<and> statusText r' = statusText r \<and> body r' = body r"
    by (auto simp add: addPaymentResponseHeaders_def dest: new_Response_keeps
          split: if_splits sum.splits)
  then show "status r' = status r" "statusText r' = statusText r" "body r' = body r"
    by simp_all
next
  assume "success s \<and> truthy (transaction s) \<and> \<not> copyable r"
  then show "\<exists>e. addPaymentResponseHeaders w this r s = Inl e"
    using new_Response_refuses[of r]
    by (auto simp add: addPaymentResponseHeaders_def split: sum.splits)
qed

lemma settled_receipt:
  "btoa (JSON_stringify (paymentResponse paid_world default_config settled)) =
     Inr ''eyJzdWNjZXNzIjp0cnVlLCJ0cmFuc2FjdGlvbiI6ImFiYzEyMyIsIm5ldHdvcmsiOiJzb2xhbmEtZGV2bmV0IiwiYW1vdW50IjoiMTAwMDAwIiwidGltZXN0YW1wIjoiMjAyNS0wMS0wMVQwMDowMDowMC4wMDBaIn0=''"
  by code_simp

lemma ok_copyable: "copyable ok_response" "\<not> copyable error_response"
  by (simp_all add: copyable_def ok_response_def error_response_def null_body_status_def)

theorem receipt_keeps_response_witness:
  "success settled \<and> truthy (transaction settled) \<and> copyable ok_response
   \<and> (\<exists>r'. addPaymentResponseHeaders paid_world default_config ok_response settled = Inr r'
          \<and> status r' = 200 \<and> body r' = Text ''{}''
          \<and> Headers_get (headers r') ''content-type'' = Some ''application/json''
          \<and> Headers_get (headers r') ''x-payment-response'' =
               Some ''eyJzdWNjZXNzIjp0cnVlLCJ0cmFuc2FjdGlvbiI6ImFiYzEyMyIsIm5ldHdvcmsiOiJzb2xhbmEtZGV2bmV0IiwiYW1vdW50IjoiMTAwMDAwIiwidGltZXN0YW1wIjoiMjAyNS0wMS0wMVQwMDowMDowMC4wMDBaIn0='')
   \<and> \<not> copyable error_response
   \<and> (\<exists>e. addPaymentResponseHeaders paid_world default_config error_response settled = Inl e)"
proof -
  have s: "success settled" "truthy (transaction settled)"
    by (simp_all add: settled_def truthy_def)
  have n: "map lower_char ''content-type'' \<noteq> ''x-payment-response''
           \<and> map lower_char ''content-type'' \<noteq> ''access-control-expose-headers''"
    by (simp add: lower_char_def)
  note ok = receipt_keeps_response[where s = settled and w = paid_world and this = default_config
              and r = ok_response]
  note err = receipt_keeps_response[where s = settled and w = paid_world and this = default_config
              and r = error_response]
  from ok[THEN conjunct1] s settled_receipt ok_copyable(1)
  obtain r' where r':
    "addPaymentResponseHeaders paid_world default_config ok_response settled = Inr r'"
    "status r' = status ok_response" "body r' = body ok_response"
    "Headers_get (headers r') ''X-PAYMENT-RESPONSE'' =
       Some ''eyJzdWNjZXNzIjp0cnVlLCJ0cmFuc2FjdGlvbiI6ImFiYzEyMyIsIm5ldHdvcmsiOiJzb2xhbmEtZGV2bmV0IiwiYW1vdW50IjoiMTAwMDAwIiwidGltZXN0YW1wIjoiMjAyNS0wMS0wMVQwMDowMDowMC4wMDBaIn0=''"
    "\<forall>n. map lower_char n \<noteq> ''x-payment-response''
                     \<and> map lower_char n \<noteq> ''access-control-expose-headers'' \<longrightarrow>
                   Headers_get (headers r') n = Headers_get (headers ok_response) n"
    by blast
  have "Headers_get (headers r') ''content-type'' = Headers_get (headers ok_response) ''content-type''"
    using r'(5) n by blast
  then have c: "Headers_get (headers r') ''content-type'' = Some ''application/json''"
    by (simp add: Headers_get_def ok_response_def lower_char_def)
  have x: "Headers_get (headers r') ''x-payment-response'' =
       Headers_get (headers r') ''X-PAYMENT-RESPONSE''"
    by (simp add: Headers_get_def lower_char_def)
  have e: "\<exists>e. addPaymentResponseHeaders paid_world default_config error_response settled = Inl e"
    using err[THEN conjunct2, THEN conjunct2, THEN conjunct2, THEN conjunct2] s ok_copyable(2)
    by blast
  show ?thesis
    using s r'(1,2,3,4) c x e ok_copyable by (simp add: ok_response_def)
qed

text \<open>
  The claim as stated fails: a successful settlement whose transaction is present and is
  the empty string adds no header; one whose transaction holds a character beyond U+00FF
  (here the euro sign) makes \<^verbatim>\<open>btoa\<close> throw, so that no response is returned; and for a
  response of status 0, as \<^verbatim>\<open>Response.error()\<close> is, the constructor throws a
  \<^verbatim>\<open>RangeError\<close>.
\<close>

theorem receipt_not_always_attached:
  "addPaymentResponseHeaders paid_world default_config ok_response (settled\<lparr>transaction := Some []\<rparr>)
     = Inr ok_response
   \<and> Headers_get (headers ok_response) ''X-PAYMENT-RESPONSE'' = None
   \<and> addPaymentResponseHeaders paid_world default_config ok_response
        (settled\<lparr>transaction := Some [CHR 0xE2, CHR 0x82, CHR 0xAC]\<rparr>)
     = Inl (Error ''InvalidCharacterError'')
   \<and> addPaymentResponseHeaders paid_world default_config error_response settled
     = Inl (Error ''RangeError'')"
proof -
  have a: "addPaymentResponseHeaders paid_world default_config ok_response
             (settled\<lparr>transaction := Some []\<rparr>) = Inr ok_response"
    by (simp add: addPaymentResponseHeaders_def truthy_def)
  have b: "Headers_get (headers ok_response) ''X-PAYMENT-RESPONSE'' = None"
    by (simp add: Headers_get_def ok_response_def lower_char_def)
  have "btoa (JSON_stringify (paymentResponse paid_world default_config
                (settled\<lparr>transaction := Some [CHR 0xE2, CHR 0x82, CHR 0xAC]\<rparr>)))
     = Inl (Error ''InvalidCharacterError'')"
    by code_simp
  then have c: "addPaymentResponseHeaders paid_world default_config ok_response
        (settled\<lparr>transaction := Some [CHR 0xE2, CHR 0x82, CHR 0xAC]\<rparr>)
     = Inl (Error ''InvalidCharacterError'')"
    by (simp add: addPaymentResponseHeaders_def settled_def truthy_def)
  have d: "addPaymentResponseHeaders paid_world default_config error_response settled
     = Inl (Error ''RangeError'')"
    using settled_receipt
    by (simp add: addPaymentResponseHeaders_def settled_def truthy_def new_Response_def
          error_response_def)
  show ?thesis using a b c d by simp
qed

end
